theory Spec2Isabelle
  imports Main "HOL-Library.Word"
begin

section \<open>easylog: the trace-correlated logging decorator (pkg/otel/trace.go)\<close>

text \<open>
  The development embeds the Go package \<^verbatim>\<open>pkg/otel\<close>: the caller recorder
  \<^verbatim>\<open>recordCaller\<close>, the message resolution \<^verbatim>\<open>getMessage\<close> and
  \<^verbatim>\<open>getMessageln\<close>, the option resolution \<^verbatim>\<open>applyConfig\<close>, the constructors
  \<^verbatim>\<open>WithContext\<close> and \<^verbatim>\<open>SugarWithContext\<close>, and the methods of
  \<^verbatim>\<open>stdLogger\<close> and \<^verbatim>\<open>stdSugaredLogger\<close>.

  The collaborators that are not part of the repository (zap, the OpenTelemetry span, the
  Go runtime's stack walker and the \<^verbatim>\<open>fmt\<close> package) are modelled by what the code
  observes of them: the calls made to the span and to the wrapped logger are appended to
  logs held in an explicit state, the live call stack is a list of frames, and the
  \<^verbatim>\<open>fmt\<close> functions are given on strings, ints and bools.
\<close>

subsection \<open>Severity: zapcore.Level, a signed 8-bit integer\<close>

type_synonym Level = "8 word"

definition DebugLevel :: Level where "DebugLevel = - 1"
definition InfoLevel :: Level where "InfoLevel = 0"
definition WarnLevel :: Level where "WarnLevel = 1"
definition ErrorLevel :: Level where "ErrorLevel = 2"
definition DPanicLevel :: Level where "DPanicLevel = 3"
definition PanicLevel :: Level where "PanicLevel = 4"
definition FatalLevel :: Level where "FatalLevel = 5"

subsection \<open>Decimal rendering (strconv.Itoa, and the verb d of fmt)\<close>

fun digits :: "nat \<Rightarrow> string" where
  "digits n =
     (if n < 10 then [''0123456789'' ! n]
      else digits (n div 10) @ [''0123456789'' ! (n mod 10)])"

definition Itoa :: "int \<Rightarrow> string" where
  "Itoa i = (if i < 0 then CHR ''-'' # digits (nat (- i)) else digits (nat i))"

text \<open>
  \<^verbatim>\<open>Level.String()\<close> of zapcore: the lower-case name of the seven named levels, and
  \<^verbatim>\<open>Level(n)\<close> for every other value.
\<close>

definition Level_String :: "Level \<Rightarrow> string" where
  "Level_String l =
     (if l = DebugLevel then ''debug''
      else if l = InfoLevel then ''info''
      else if l = WarnLevel then ''warn''
      else if l = ErrorLevel then ''error''
      else if l = DPanicLevel then ''dpanic''
      else if l = PanicLevel then ''panic''
      else if l = FatalLevel then ''fatal''
      else ''Level('' @ Itoa (sint l) @ '')'')"

subsection \<open>The fmt package on strings, ints and bools\<close>

text \<open>
  The variadic \<^verbatim>\<open>...interface{}\<close> arguments of the sugared API. The model covers the
  dynamic types string, int and bool.
\<close>

datatype arg = AString string | AInt int | ABool bool

text \<open>
  What stops a call short of a result. \<^verbatim>\<open>SliceBoundsPanic\<close> is Go's run-time panic on a
  slice expression out of range. \<^verbatim>\<open>OutsideFmtFragment\<close> is not an event of the program:
  it marks a format template that uses a directive other than the verbs v, s, d and the
  literal percent sign, for which this model of \<^verbatim>\<open>fmt.Sprintf\<close> gives no string.
\<close>

datatype fault = SliceBoundsPanic | OutsideFmtFragment

datatype verb = Vv | Vs | Vd

definition verbChar :: "verb \<Rightarrow> char" where
  "verbChar v = (case v of Vv \<Rightarrow> CHR ''v'' | Vs \<Rightarrow> CHR ''s'' | Vd \<Rightarrow> CHR ''d'')"

definition verbOf :: "char \<Rightarrow> verb option" where
  "verbOf c =
     (if c = CHR ''v'' then Some Vv
      else if c = CHR ''s'' then Some Vs
      else if c = CHR ''d'' then Some Vd
      else None)"

definition typeName :: "arg \<Rightarrow> string" where
  "typeName a = (case a of AString _ \<Rightarrow> ''string'' | AInt _ \<Rightarrow> ''int'' | ABool _ \<Rightarrow> ''bool'')"

text \<open>The default format (verb v) of an operand.\<close>

definition fmtV :: "arg \<Rightarrow> string" where
  "fmtV a =
     (case a of
        AString s \<Rightarrow> s
      | AInt i \<Rightarrow> Itoa i
      | ABool b \<Rightarrow> (if b then ''true'' else ''false''))"

text \<open>
  \<^verbatim>\<open>printArg\<close>: an operand under a verb. A verb that does not apply to the operand's
  type prints \<^verbatim>\<open>%!verb(type=value)\<close>.
\<close>

definition badVerb :: "verb \<Rightarrow> arg \<Rightarrow> string" where
  "badVerb v a = ''%!'' @ [verbChar v] @ ''('' @ typeName a @ ''='' @ fmtV a @ '')''"

definition printArg :: "arg \<Rightarrow> verb \<Rightarrow> string" where
  "printArg a v =
     (case a of
        AString s \<Rightarrow> (if v = Vv \<or> v = Vs then s else badVerb v a)
      | AInt i \<Rightarrow> (if v = Vv \<or> v = Vd then Itoa i else badVerb v a)
      | ABool b \<Rightarrow> (if v = Vv then fmtV a else badVerb v a))"

fun commaSep :: "string list \<Rightarrow> string" where
  "commaSep [] = []"
| "commaSep [x] = x"
| "commaSep (x # y # ys) = x @ '', '' @ commaSep (y # ys)"

text \<open>The operands left over when the template is used up.\<close>

definition extraArgs :: "arg list \<Rightarrow> string" where
  "extraArgs as =
     (if as = [] then []
      else ''%!(EXTRA '' @ commaSep (map (\<lambda>a. typeName a @ ''='' @ fmtV a) as) @ '')'')"

text \<open>
  \<^verbatim>\<open>fmt.Sprintf\<close>: literal text is copied; \<^verbatim>\<open>%%\<close> prints a percent sign and takes
  no operand; \<^verbatim>\<open>%v\<close>, \<^verbatim>\<open>%s\<close> and \<^verbatim>\<open>%d\<close> take the next operand, or print
  \<^verbatim>\<open>%!verb(MISSING)\<close> when none is left; a percent sign that ends the template prints
  \<^verbatim>\<open>%!(NOVERB)\<close>; operands left over are listed at the end.
\<close>

fun Sprintf :: "string \<Rightarrow> arg list \<Rightarrow> fault + string" where
  "Sprintf [] as = Inr (extraArgs as)"
| "Sprintf (c # cs) as =
     (if c \<noteq> CHR ''%'' then map_sum id ((#) c) (Sprintf cs as)
      else (case cs of
              [] \<Rightarrow> Inr (''%!(NOVERB)'' @ extraArgs as)
            | d # rest \<Rightarrow>
                if d = CHR ''%'' then map_sum id ((#) (CHR ''%'')) (Sprintf rest as)
                else (case verbOf d of
                        None \<Rightarrow> Inl OutsideFmtFragment
                      | Some v \<Rightarrow>
                          (case as of
                             [] \<Rightarrow> map_sum id ((@) (''%!'' @ [d] @ ''(MISSING)'')) (Sprintf rest [])
                           | a # as' \<Rightarrow> map_sum id ((@) (printArg a v)) (Sprintf rest as')))))"

text \<open>
  \<^verbatim>\<open>fmt.Sprint\<close>: the operands in their default format; a space is added between two
  operands when neither is a string.
\<close>

definition isString :: "arg \<Rightarrow> bool" where
  "isString a = (case a of AString _ \<Rightarrow> True | _ \<Rightarrow> False)"

fun doPrint :: "bool \<Rightarrow> nat \<Rightarrow> arg list \<Rightarrow> string" where
  "doPrint prevString argNum [] = []"
| "doPrint prevString argNum (a # as) =
     (if argNum > 0 \<and> \<not> isString a \<and> \<not> prevString then '' '' else []) @ fmtV a
       @ doPrint (isString a) (argNum + 1) as"

definition Sprint :: "arg list \<Rightarrow> string" where
  "Sprint as = doPrint False 0 as"

text \<open>
  \<^verbatim>\<open>fmt.Sprintln\<close>: the operands in their default format, a space between every two
  operands, and a newline at the end.
\<close>

fun doPrintln :: "nat \<Rightarrow> arg list \<Rightarrow> string" where
  "doPrintln argNum [] = [CHR 0x0A]"
| "doPrintln argNum (a # as) =
     (if argNum > 0 then '' '' else []) @ fmtV a @ doPrintln (argNum + 1) as"

definition Sprintln :: "arg list \<Rightarrow> string" where
  "Sprintln as = doPrintln 0 as"

subsection \<open>Message resolution of the sugared API\<close>

text \<open>\<^verbatim>\<open>getMessage\<close> (trace.go, lines 222-238).\<close>

definition getMessage :: "string \<Rightarrow> arg list \<Rightarrow> fault + string" where
  "getMessage template fmtArgs =
     (if length fmtArgs = 0 then Inr template
      else if template \<noteq> [] then Sprintf template fmtArgs
      else if length fmtArgs = 1 then
        (case fmtArgs ! 0 of
           AString str \<Rightarrow> Inr str
         | _ \<Rightarrow> Inr (Sprint fmtArgs))
      else Inr (Sprint fmtArgs))"

text \<open>
  \<^verbatim>\<open>getMessageln\<close> (trace.go, lines 240-244). The slice expression
  \<^verbatim>\<open>msg[:len(msg)-1]\<close> panics when \<^verbatim>\<open>msg\<close> is empty.
\<close>

definition getMessageln :: "arg list \<Rightarrow> fault + string" where
  "getMessageln fmtArgs =
     (let msg = Sprintln fmtArgs
      in if length msg = 0 then Inl SliceBoundsPanic
         else Inr (take (length msg - 1) msg))"

subsection \<open>The caller recorder\<close>

text \<open>\<^verbatim>\<open>runtime.Frame\<close>, as far as the code reads it.\<close>

record Frame =
  Function :: string
  File :: string
  Line :: int

definition zeroFrame :: Frame where
  "zeroFrame = \<lparr>Function = [], File = [], Line = 0\<rparr>"

text \<open>\<^verbatim>\<open>attribute.KeyValue\<close>: a key with a string or an int value.\<close>

datatype Value = StringValue string | IntValue int

type_synonym KeyValue = "string \<times> Value"

definition logSeverityKey :: string where "logSeverityKey = ''log.severity''"
definition logMessageKey :: string where "logMessageKey = ''log.message''"

text \<open>The keys of semconv v1.12.0.\<close>

definition CodeFunctionKey :: string where "CodeFunctionKey = ''code.function''"
definition CodeFilepathKey :: string where "CodeFilepathKey = ''code.filepath''"
definition CodeLineNumberKey :: string where "CodeLineNumberKey = ''code.lineno''"
definition ExceptionStacktraceKey :: string where
  "ExceptionStacktraceKey = ''exception.stacktrace''"

text \<open>
  The live call stack is a list of frames, innermost first: element 0 is the frame of
  \<^verbatim>\<open>runtime.Callers\<close> itself, element 1 the frame of its caller
  (\<^verbatim>\<open>recordCaller\<close>), and so on outwards. A program counter is modelled by the frame it
  resolves to; a slot of the \<^verbatim>\<open>pc\<close> slice that was never written holds 0 and
  resolves to no frame (\<open>None\<close>).

  \<^verbatim>\<open>runtime.Callers(skip, pc)\<close> skips \<open>skip\<close> frames, writes the following frames
  into \<open>pc\<close> as far as \<open>pc\<close> has room (\<open>n\<close> slots) and the stack has frames, and
  returns how many it wrote.
\<close>

definition Callers :: "int \<Rightarrow> nat \<Rightarrow> Frame list \<Rightarrow> nat \<times> Frame option list" where
  "Callers skip n stk =
     (let written = take n (drop (nat skip) stk)
      in (length written, map Some written @ replicate (n - length written) None))"

text \<open>
  \<^verbatim>\<open>runtime.CallersFrames(pc)\<close>: an iterator over the frames the slice resolves to.
  \<^verbatim>\<open>Frames.Next\<close> returns the next frame and \<^verbatim>\<open>more\<close>, which tells whether a
  further call of \<^verbatim>\<open>Next\<close> will return a valid frame; when no frame is left it
  returns the zero frame. (The result \<^verbatim>\<open>more\<close> is written \<open>more'\<close> below.)
\<close>

fun CallersFrames :: "Frame option list \<Rightarrow> Frame list" where
  "CallersFrames [] = []"
| "CallersFrames (None # pcs) = CallersFrames pcs"
| "CallersFrames (Some f # pcs) = f # CallersFrames pcs"

definition Frames_Next :: "Frame list \<Rightarrow> Frame \<times> bool \<times> Frame list" where
  "Frames_Next frames =
     (case frames of
        [] \<Rightarrow> (zeroFrame, False, [])
      | f # rest \<Rightarrow> (f, rest \<noteq> [], rest))"

text \<open>
  The loop of \<^verbatim>\<open>recordCaller\<close> (trace.go, lines 117-135), from the value \<open>i\<close> of
  its counter: it returns the attributes and the stack text built so far.
\<close>

function callerLoop ::
  "bool \<Rightarrow> nat \<Rightarrow> nat \<Rightarrow> Frame list \<Rightarrow> KeyValue list \<Rightarrow> string \<Rightarrow> KeyValue list \<times> string"
where
  "callerLoop stack i cc frames attrs stackStr =
     (if i < cc then
        (case Frames_Next frames of
           (next, more', frames') \<Rightarrow>
             if \<not> more' then (attrs, stackStr)
             else
               let attrs' =
                     (if i = 0 then
                        attrs @ [(CodeFunctionKey, StringValue (Function next))]
                              @ [(CodeFilepathKey, StringValue (File next))]
                              @ [(CodeLineNumberKey, IntValue (Line next))]
                      else attrs);
                   stackStr' =
                     (if stack then
                        stackStr @ Function next @ '' '' @ File next @ '':''
                                 @ Itoa (Line next) @ [CHR 0x0A]
                      else stackStr)
               in callerLoop stack (i + 1) cc frames' attrs' stackStr')
      else (attrs, stackStr))"
  by pat_completeness auto
termination
  by (relation "measure (\<lambda>(stack, i, cc, frames, attrs, stackStr). cc - i)") auto

text \<open>
  \<^verbatim>\<open>recordCaller\<close> (trace.go, lines 102-141). \<open>stk\<close> is the live call stack at the
  call of \<^verbatim>\<open>runtime.Callers\<close>. \<open>callerDepth\<close> is an int8; \<open>skip\<close> is a Go int, which
  the two callers compute from a uint8, so \<open>skip + 1\<close> does not overflow and is not
  negative (a negative skip count skips no frame here).
\<close>

definition recordCaller :: "KeyValue list \<Rightarrow> 8 word \<Rightarrow> int \<Rightarrow> Frame list \<Rightarrow> KeyValue list" where
  "recordCaller attrs callerDepth skip stk =
     (if 0 \<le>s callerDepth then
        let (stack, n) =
              (if callerDepth = 0 then (False, 1) else (True, nat (sint callerDepth)));
            (cc, pc) = Callers (skip + 1) n stk;
            frames = CallersFrames pc;
            (attrs', stackStr) = callerLoop stack 0 cc frames attrs []
        in if stack then attrs' @ [(ExceptionStacktraceKey, StringValue stackStr)]
           else attrs'
      else attrs)"

subsection \<open>The span and the wrapped logger\<close>

text \<open>
  \<^verbatim>\<open>trace.SpanContext\<close>: the trace id (16 bytes), the span id (8 bytes) and the
  trace flags (one byte).
\<close>

record SpanContext =
  traceID :: "8 word list"
  spanID :: "8 word list"
  traceFlags :: "8 word"

definition emptySpanContext :: SpanContext where
  "emptySpanContext = \<lparr>traceID = replicate 16 0, spanID = replicate 8 0, traceFlags = 0\<rparr>"

text \<open>An identifier is valid when one of its bytes is not zero.\<close>

definition IsValid :: "SpanContext \<Rightarrow> bool" where
  "IsValid sc = (list_ex (\<lambda>b. b \<noteq> 0) (traceID sc) \<and> list_ex (\<lambda>b. b \<noteq> 0) (spanID sc))"

definition hexByte :: "8 word \<Rightarrow> string" where
  "hexByte b = [''0123456789abcdef'' ! (unat b div 16), ''0123456789abcdef'' ! (unat b mod 16)]"

definition hexString :: "8 word list \<Rightarrow> string" where
  "hexString bs = concat (map hexByte bs)"

text \<open>
  A \<^verbatim>\<open>context.Context\<close> as the package sees it: the nil context, a context that
  carries no span, or a context that carries a span with the given span context.
\<close>

datatype Context = NilCtx | NoSpanCtx | SpanCtx SpanContext

definition SpanContextFromContext :: "Context \<Rightarrow> SpanContext" where
  "SpanContextFromContext c = (case c of SpanCtx sc \<Rightarrow> sc | _ \<Rightarrow> emptySpanContext)"

datatype Code = codes_Unset | codes_Error | codes_Ok

datatype span_op = AddEvent string "KeyValue list" | SetStatus Code string

text \<open>
  \<^verbatim>\<open>zap.Logger\<close> and \<^verbatim>\<open>zap.SugaredLogger\<close> (a sugared logger is a view of a
  logger): the fields every record carries and the caller skip; \<open>zl_name\<close> stands for
  the rest of the logger, which the package never touches.
\<close>

type_synonym Field = "string \<times> string"

definition zap_String :: "string \<Rightarrow> string \<Rightarrow> Field" where
  "zap_String key val = (key, val)"

record zapLogger =
  zl_name :: string
  zl_fields :: "Field list"
  zl_callerSkip :: int

datatype zapOption = zap_Fields "Field list" | zap_AddCallerSkip int

definition applyOption :: "zapLogger \<Rightarrow> zapOption \<Rightarrow> zapLogger" where
  "applyOption z opt =
     (case opt of
        zap_Fields fs \<Rightarrow> z\<lparr>zl_fields := zl_fields z @ fs\<rparr>
      | zap_AddCallerSkip n \<Rightarrow> z\<lparr>zl_callerSkip := zl_callerSkip z + n\<rparr>)"

definition zap_WithOptions :: "zapLogger \<Rightarrow> zapOption list \<Rightarrow> zapLogger" where
  "zap_WithOptions z opts = foldl applyOption z opts"

text \<open>
  The methods of the two interfaces of \<^verbatim>\<open>pkg/izap\<close>. A levelled method is named by
  its level: \<open>Leveled MDebug msg fields\<close> is \<^verbatim>\<open>Debug(msg, fields...)\<close>,
  \<open>Printf MWarn template args\<close> is \<^verbatim>\<open>Warnf(template, args...)\<close>,
  \<open>Printw MError msg kvs\<close> is \<^verbatim>\<open>Errorw(msg, kvs...)\<close>, \<open>Println MInfo args\<close> is
  \<^verbatim>\<open>Infoln(args...)\<close>.
\<close>

datatype levelName = MDebug | MInfo | MWarn | MError | MDPanic | MPanic | MFatal

datatype StdCall =
  Log Level string "Field list"
| Leveled levelName string "Field list"

datatype SugarCall =
  Print levelName "arg list"
| Printf levelName string "arg list"
| Printw levelName string "arg list"
| Println levelName "arg list"

text \<open>A call received by a wrapped logger.\<close>

datatype sink_entry = StdEntry zapLogger StdCall | SugarEntry zapLogger SugarCall

text \<open>
  The state outside the decorator: whether the span of the context is recording now, the
  mutator calls made on that span, and the calls made on wrapped loggers, both in order.
\<close>

record world =
  recording :: bool
  spanOps :: "span_op list"
  sinkCalls :: "sink_entry list"

text \<open>
  \<^verbatim>\<open>trace.SpanFromContext(ctx).IsRecording()\<close>: a context without a span gives the
  no-op span, which never records.
\<close>

definition span_IsRecording :: "Context \<Rightarrow> world \<Rightarrow> bool" where
  "span_IsRecording c w = (case c of SpanCtx _ \<Rightarrow> recording w | _ \<Rightarrow> False)"

definition span_AddEvent :: "string \<Rightarrow> KeyValue list \<Rightarrow> world \<Rightarrow> world" where
  "span_AddEvent name attrs w = w\<lparr>spanOps := spanOps w @ [AddEvent name attrs]\<rparr>"

definition span_SetStatus :: "Code \<Rightarrow> string \<Rightarrow> world \<Rightarrow> world" where
  "span_SetStatus code description w = w\<lparr>spanOps := spanOps w @ [SetStatus code description]\<rparr>"

definition Logger_call :: "zapLogger \<Rightarrow> StdCall \<Rightarrow> world \<Rightarrow> world" where
  "Logger_call z c w = w\<lparr>sinkCalls := sinkCalls w @ [StdEntry z c]\<rparr>"

definition SugaredLogger_call :: "zapLogger \<Rightarrow> SugarCall \<Rightarrow> world \<Rightarrow> world" where
  "SugaredLogger_call z c w = w\<lparr>sinkCalls := sinkCalls w @ [SugarEntry z c]\<rparr>"

subsection \<open>The configuration (the config part of the package)\<close>

text \<open>
  The four settings that \<^verbatim>\<open>config\<close>, \<^verbatim>\<open>stdLogger\<close> and
  \<^verbatim>\<open>stdSugaredLogger\<close> all hold, under the names the three structs give them.
\<close>

record thresholds =
  LogLevel :: Level
  ErrorStatusLevel :: Level
  CallerDepth :: "8 word"
  CallerSkip :: "8 word"

record config = thresholds +
  LogTraceId :: bool
  LogSpanId :: bool
  LogSampled :: bool

type_synonym Option = "config \<Rightarrow> config"

definition WithLogTraceId :: "bool \<Rightarrow> Option" where
  "WithLogTraceId enabled = (\<lambda>cfg. cfg\<lparr>LogTraceId := enabled\<rparr>)"

definition WithLogSpanId :: "bool \<Rightarrow> Option" where
  "WithLogSpanId enabled = (\<lambda>cfg. cfg\<lparr>LogSpanId := enabled\<rparr>)"

definition WithLogSampled :: "bool \<Rightarrow> Option" where
  "WithLogSampled enabled = (\<lambda>cfg. cfg\<lparr>LogSampled := enabled\<rparr>)"

definition WithLogLevel :: "Level \<Rightarrow> Option" where
  "WithLogLevel logLevel = (\<lambda>cfg. cfg\<lparr>LogLevel := logLevel\<rparr>)"

definition WithErrorStatusLevel :: "Level \<Rightarrow> Option" where
  "WithErrorStatusLevel errorStatusLevel = (\<lambda>cfg. cfg\<lparr>ErrorStatusLevel := errorStatusLevel\<rparr>)"

text \<open>The conversions \<^verbatim>\<open>int8(depth)\<close> and \<^verbatim>\<open>uint8(skip)\<close> keep the low eight bits.\<close>

definition WithCallerDepth :: "int \<Rightarrow> Option" where
  "WithCallerDepth depth = (\<lambda>cfg. cfg\<lparr>CallerDepth := word_of_int depth\<rparr>)"

definition WithCallerSkip :: "int \<Rightarrow> Option" where
  "WithCallerSkip skip =
     (if skip > 0 then (\<lambda>cfg. cfg\<lparr>CallerSkip := word_of_int skip\<rparr>)
      else (\<lambda>c. c))"

text \<open>\<^verbatim>\<open>applyConfig\<close> (trace.go, lines 422-433).\<close>

definition applyConfig :: "Option list \<Rightarrow> config" where
  "applyConfig opts =
     foldl (\<lambda>cfg opt. opt cfg)
       \<lparr>LogLevel = ErrorLevel, ErrorStatusLevel = ErrorLevel, CallerDepth = 8, CallerSkip = 0,
        LogTraceId = True, LogSpanId = False, LogSampled = False\<rparr>
       opts"

subsection \<open>The structured decorator\<close>

record stdLogger = thresholds +
  Logger :: zapLogger
  ctx :: Context

definition defaultTraceIdKey :: string where "defaultTraceIdKey = ''trace_id''"
definition defaultSpanIdKey :: string where "defaultSpanIdKey = ''span_id''"
definition defaultSampledKey :: string where "defaultSampledKey = ''sampled''"

text \<open>
  \<^verbatim>\<open>stdLogger.traceInfo\<close> (trace.go, lines 83-100). The sum
  \<^verbatim>\<open>l.CallerSkip+3\<close> is computed in uint8 and wraps.
\<close>

definition traceInfo :: "stdLogger \<Rightarrow> Level \<Rightarrow> string \<Rightarrow> Frame list \<Rightarrow> world \<Rightarrow> world" where
  "traceInfo l lvl msg stk w =
     (if \<not> span_IsRecording (ctx l) w then w
      else
        let w1 =
              (if LogLevel l \<le>s lvl then
                 let attrs = [];
                     attrs = attrs @ [(logSeverityKey, StringValue (Level_String lvl))];
                     attrs = attrs @ [(logMessageKey, StringValue msg)];
                     attrs = recordCaller attrs (CallerDepth l) (uint (CallerSkip l + 3)) stk
                 in span_AddEvent ''log'' attrs w
               else w)
        in if ErrorStatusLevel l \<le>s lvl then span_SetStatus codes_Error msg w1 else w1)"

text \<open>
  The eight methods of \<^verbatim>\<open>stdLogger\<close> (trace.go, lines 43-81). \<open>stk\<close> is the call
  stack that \<^verbatim>\<open>runtime.Callers\<close> sees inside \<^verbatim>\<open>recordCaller\<close> during this call.
  (The parameter \<^verbatim>\<open>fields\<close> is written \<open>fields'\<close>.)
\<close>

definition stdLogger_Log ::
  "stdLogger \<Rightarrow> Level \<Rightarrow> string \<Rightarrow> Field list \<Rightarrow> Frame list \<Rightarrow> world \<Rightarrow> world" where
  "stdLogger_Log l lvl msg fields' stk w =
     Logger_call (Logger l) (Log lvl msg fields') (traceInfo l lvl msg stk w)"

definition stdLogger_Debug ::
  "stdLogger \<Rightarrow> string \<Rightarrow> Field list \<Rightarrow> Frame list \<Rightarrow> world \<Rightarrow> world" where
  "stdLogger_Debug l msg fields' stk w =
     Logger_call (Logger l) (Leveled MDebug msg fields') (traceInfo l DebugLevel msg stk w)"

definition stdLogger_Info ::
  "stdLogger \<Rightarrow> string \<Rightarrow> Field list \<Rightarrow> Frame list \<Rightarrow> world \<Rightarrow> world" where
  "stdLogger_Info l msg fields' stk w =
     Logger_call (Logger l) (Leveled MInfo msg fields') (traceInfo l InfoLevel msg stk w)"

definition stdLogger_Warn ::
  "stdLogger \<Rightarrow> string \<Rightarrow> Field list \<Rightarrow> Frame list \<Rightarrow> world \<Rightarrow> world" where
  "stdLogger_Warn l msg fields' stk w =
     Logger_call (Logger l) (Leveled MWarn msg fields') (traceInfo l WarnLevel msg stk w)"

definition stdLogger_Error ::
  "stdLogger \<Rightarrow> string \<Rightarrow> Field list \<Rightarrow> Frame list \<Rightarrow> world \<Rightarrow> world" where
  "stdLogger_Error l msg fields' stk w =
     Logger_call (Logger l) (Leveled MError msg fields') (traceInfo l ErrorLevel msg stk w)"

definition stdLogger_Panic ::
  "stdLogger \<Rightarrow> string \<Rightarrow> Field list \<Rightarrow> Frame list \<Rightarrow> world \<Rightarrow> world" where
  "stdLogger_Panic l msg fields' stk w =
     Logger_call (Logger l) (Leveled MPanic msg fields') (traceInfo l PanicLevel msg stk w)"

definition stdLogger_Fatal ::
  "stdLogger \<Rightarrow> string \<Rightarrow> Field list \<Rightarrow> Frame list \<Rightarrow> world \<Rightarrow> world" where
  "stdLogger_Fatal l msg fields' stk w =
     Logger_call (Logger l) (Leveled MFatal msg fields') (traceInfo l FatalLevel msg stk w)"

definition stdLogger_DPanic ::
  "stdLogger \<Rightarrow> string \<Rightarrow> Field list \<Rightarrow> Frame list \<Rightarrow> world \<Rightarrow> world" where
  "stdLogger_DPanic l msg fields' stk w =
     Logger_call (Logger l) (Leveled MDPanic msg fields') (traceInfo l DPanicLevel msg stk w)"

text \<open>The interface value \<^verbatim>\<open>izap.StdLogger\<close> that \<^verbatim>\<open>WithContext\<close> returns.\<close>

datatype izap_StdLogger = ZapLogger zapLogger | StdLoggerPtr stdLogger

text \<open>\<^verbatim>\<open>WithContext\<close> (trace.go, lines 143-177).\<close>

definition WithContext :: "Context \<Rightarrow> zapLogger \<Rightarrow> Option list \<Rightarrow> izap_StdLogger" where
  "WithContext c zLogger opts =
     (if c = NilCtx then ZapLogger zLogger
      else
        let spanContext = SpanContextFromContext c
        in if \<not> IsValid spanContext then ZapLogger zLogger
           else
             let cfg = applyConfig opts;
                 fields' = [];
                 fields' =
                   (if LogTraceId cfg then
                      fields' @ [zap_String defaultTraceIdKey (hexString (traceID spanContext))]
                    else fields');
                 fields' =
                   (if LogSpanId cfg then
                      fields' @ [zap_String defaultSpanIdKey (hexString (spanID spanContext))]
                    else fields');
                 fields' =
                   (if LogSampled cfg then
                      fields' @ [zap_String defaultSampledKey (hexString [traceFlags spanContext])]
                    else fields')
             in StdLoggerPtr
                  \<lparr>LogLevel = LogLevel cfg,
                   ErrorStatusLevel = ErrorStatusLevel cfg,
                   CallerDepth = CallerDepth cfg,
                   CallerSkip = CallerSkip cfg,
                   Logger = zap_WithOptions zLogger [zap_Fields fields', zap_AddCallerSkip 1],
                   ctx = c\<rparr>)"

subsection \<open>The sugared decorator\<close>

record stdSugaredLogger = thresholds +
  SugaredLogger :: zapLogger
  sctx :: Context

text \<open>\<^verbatim>\<open>stdSugaredLogger.sugaredTraceInfo\<close> (trace.go, lines 190-220).\<close>

definition sugaredTraceInfo ::
  "stdSugaredLogger \<Rightarrow> Level \<Rightarrow> string \<Rightarrow> bool \<Rightarrow> arg list \<Rightarrow> Frame list \<Rightarrow> world \<Rightarrow> fault + world"
where
  "sugaredTraceInfo s lvl msg ln args stk w =
     (if \<not> span_IsRecording (sctx s) w then Inr w
      else if lvl <s LogLevel s \<and> lvl <s ErrorStatusLevel s then Inr w
      else
        (case (if ln then getMessageln args else getMessage msg args) of
           Inl e \<Rightarrow> Inl e
         | Inr msg \<Rightarrow>
             let w1 =
                   (if LogLevel s \<le>s lvl then
                      let attrs = [];
                          attrs = attrs @ [(logSeverityKey, StringValue (Level_String lvl))];
                          attrs = attrs @ [(logMessageKey, StringValue msg)];
                          attrs = recordCaller attrs (CallerDepth s) (uint (3 + CallerSkip s)) stk
                      in span_AddEvent ''log'' attrs w
                    else w)
             in Inr (if ErrorStatusLevel s \<le>s lvl then span_SetStatus codes_Error msg w1
                     else w1)))"

text \<open>
  A panic inside \<^verbatim>\<open>sugaredTraceInfo\<close> leaves the method before the wrapped logger is
  called.
\<close>

definition andThen :: "fault + world \<Rightarrow> (world \<Rightarrow> world) \<Rightarrow> fault + world" where
  "andThen r f = (case r of Inl e \<Rightarrow> Inl e | Inr w \<Rightarrow> Inr (f w))"

text \<open>
  The 28 methods of \<^verbatim>\<open>stdSugaredLogger\<close> (trace.go, lines 246-384). The key-value
  methods pass \<^verbatim>\<open>nil\<close>, the empty argument list, to \<^verbatim>\<open>sugaredTraceInfo\<close>.
\<close>

definition stdSugaredLogger_Debug :: "stdSugaredLogger \<Rightarrow> arg list \<Rightarrow> Frame list \<Rightarrow> world \<Rightarrow> fault + world" where
  "stdSugaredLogger_Debug s args stk w =
     andThen (sugaredTraceInfo s DebugLevel [] False args stk w)
       (SugaredLogger_call (SugaredLogger s) (Print MDebug args))"

definition stdSugaredLogger_Info :: "stdSugaredLogger \<Rightarrow> arg list \<Rightarrow> Frame list \<Rightarrow> world \<Rightarrow> fault + world" where
  "stdSugaredLogger_Info s args stk w =
     andThen (sugaredTraceInfo s InfoLevel [] False args stk w)
       (SugaredLogger_call (SugaredLogger s) (Print MInfo args))"

definition stdSugaredLogger_Warn :: "stdSugaredLogger \<Rightarrow> arg list \<Rightarrow> Frame list \<Rightarrow> world \<Rightarrow> fault + world" where
  "stdSugaredLogger_Warn s args stk w =
     andThen (sugaredTraceInfo s WarnLevel [] False args stk w)
       (SugaredLogger_call (SugaredLogger s) (Print MWarn args))"

definition stdSugaredLogger_Error :: "stdSugaredLogger \<Rightarrow> arg list \<Rightarrow> Frame list \<Rightarrow> world \<Rightarrow> fault + world" where
  "stdSugaredLogger_Error s args stk w =
     andThen (sugaredTraceInfo s ErrorLevel [] False args stk w)
       (SugaredLogger_call (SugaredLogger s) (Print MError args))"

definition stdSugaredLogger_DPanic :: "stdSugaredLogger \<Rightarrow> arg list \<Rightarrow> Frame list \<Rightarrow> world \<Rightarrow> fault + world" where
  "stdSugaredLogger_DPanic s args stk w =
     andThen (sugaredTraceInfo s DPanicLevel [] False args stk w)
       (SugaredLogger_call (SugaredLogger s) (Print MDPanic args))"

definition stdSugaredLogger_Panic :: "stdSugaredLogger \<Rightarrow> arg list \<Rightarrow> Frame list \<Rightarrow> world \<Rightarrow> fault + world" where
  "stdSugaredLogger_Panic s args stk w =
     andThen (sugaredTraceInfo s PanicLevel [] False args stk w)
       (SugaredLogger_call (SugaredLogger s) (Print MPanic args))"

definition stdSugaredLogger_Fatal :: "stdSugaredLogger \<Rightarrow> arg list \<Rightarrow> Frame list \<Rightarrow> world \<Rightarrow> fault + world" where
  "stdSugaredLogger_Fatal s args stk w =
     andThen (sugaredTraceInfo s FatalLevel [] False args stk w)
       (SugaredLogger_call (SugaredLogger s) (Print MFatal args))"

definition stdSugaredLogger_Debugf :: "stdSugaredLogger \<Rightarrow> string \<Rightarrow> arg list \<Rightarrow> Frame list \<Rightarrow> world \<Rightarrow> fault + world" where
  "stdSugaredLogger_Debugf s template args stk w =
     andThen (sugaredTraceInfo s DebugLevel template False args stk w)
       (SugaredLogger_call (SugaredLogger s) (Printf MDebug template args))"

definition stdSugaredLogger_Infof :: "stdSugaredLogger \<Rightarrow> string \<Rightarrow> arg list \<Rightarrow> Frame list \<Rightarrow> world \<Rightarrow> fault + world" where
  "stdSugaredLogger_Infof s template args stk w =
     andThen (sugaredTraceInfo s InfoLevel template False args stk w)
       (SugaredLogger_call (SugaredLogger s) (Printf MInfo template args))"

definition stdSugaredLogger_Warnf :: "stdSugaredLogger \<Rightarrow> string \<Rightarrow> arg list \<Rightarrow> Frame list \<Rightarrow> world \<Rightarrow> fault + world" where
  "stdSugaredLogger_Warnf s template args stk w =
     andThen (sugaredTraceInfo s WarnLevel template False args stk w)
       (SugaredLogger_call (SugaredLogger s) (Printf MWarn template args))"

definition stdSugaredLogger_Errorf :: "stdSugaredLogger \<Rightarrow> string \<Rightarrow> arg list \<Rightarrow> Frame list \<Rightarrow> world \<Rightarrow> fault + world" where
  "stdSugaredLogger_Errorf s template args stk w =
     andThen (sugaredTraceInfo s ErrorLevel template False args stk w)
       (SugaredLogger_call (SugaredLogger s) (Printf MError template args))"

definition stdSugaredLogger_DPanicf :: "stdSugaredLogger \<Rightarrow> string \<Rightarrow> arg list \<Rightarrow> Frame list \<Rightarrow> world \<Rightarrow> fault + world" where
  "stdSugaredLogger_DPanicf s template args stk w =
     andThen (sugaredTraceInfo s DPanicLevel template False args stk w)
       (SugaredLogger_call (SugaredLogger s) (Printf MDPanic template args))"

definition stdSugaredLogger_Panicf :: "stdSugaredLogger \<Rightarrow> string \<Rightarrow> arg list \<Rightarrow> Frame list \<Rightarrow> world \<Rightarrow> fault + world" where
  "stdSugaredLogger_Panicf s template args stk w =
     andThen (sugaredTraceInfo s PanicLevel template False args stk w)
       (SugaredLogger_call (SugaredLogger s) (Printf MPanic template args))"

definition stdSugaredLogger_Fatalf :: "stdSugaredLogger \<Rightarrow> string \<Rightarrow> arg list \<Rightarrow> Frame list \<Rightarrow> world \<Rightarrow> fault + world" where
  "stdSugaredLogger_Fatalf s template args stk w =
     andThen (sugaredTraceInfo s FatalLevel template False args stk w)
       (SugaredLogger_call (SugaredLogger s) (Printf MFatal template args))"

definition stdSugaredLogger_Debugw :: "stdSugaredLogger \<Rightarrow> string \<Rightarrow> arg list \<Rightarrow> Frame list \<Rightarrow> world \<Rightarrow> fault + world" where
  "stdSugaredLogger_Debugw s msg keysAndValues stk w =
     andThen (sugaredTraceInfo s DebugLevel msg False [] stk w)
       (SugaredLogger_call (SugaredLogger s) (Printw MDebug msg keysAndValues))"

definition stdSugaredLogger_Infow :: "stdSugaredLogger \<Rightarrow> string \<Rightarrow> arg list \<Rightarrow> Frame list \<Rightarrow> world \<Rightarrow> fault + world" where
  "stdSugaredLogger_Infow s msg keysAndValues stk w =
     andThen (sugaredTraceInfo s InfoLevel msg False [] stk w)
       (SugaredLogger_call (SugaredLogger s) (Printw MInfo msg keysAndValues))"

definition stdSugaredLogger_Warnw :: "stdSugaredLogger \<Rightarrow> string \<Rightarrow> arg list \<Rightarrow> Frame list \<Rightarrow> world \<Rightarrow> fault + world" where
  "stdSugaredLogger_Warnw s msg keysAndValues stk w =
     andThen (sugaredTraceInfo s WarnLevel msg False [] stk w)
       (SugaredLogger_call (SugaredLogger s) (Printw MWarn msg keysAndValues))"

definition stdSugaredLogger_Errorw :: "stdSugaredLogger \<Rightarrow> string \<Rightarrow> arg list \<Rightarrow> Frame list \<Rightarrow> world \<Rightarrow> fault + world" where
  "stdSugaredLogger_Errorw s msg keysAndValues stk w =
     andThen (sugaredTraceInfo s ErrorLevel msg False [] stk w)
       (SugaredLogger_call (SugaredLogger s) (Printw MError msg keysAndValues))"

definition stdSugaredLogger_DPanicw :: "stdSugaredLogger \<Rightarrow> string \<Rightarrow> arg list \<Rightarrow> Frame list \<Rightarrow> world \<Rightarrow> fault + world" where
  "stdSugaredLogger_DPanicw s msg keysAndValues stk w =
     andThen (sugaredTraceInfo s DPanicLevel msg False [] stk w)
       (SugaredLogger_call (SugaredLogger s) (Printw MDPanic msg keysAndValues))"

definition stdSugaredLogger_Panicw :: "stdSugaredLogger \<Rightarrow> string \<Rightarrow> arg list \<Rightarrow> Frame list \<Rightarrow> world \<Rightarrow> fault + world" where
  "stdSugaredLogger_Panicw s msg keysAndValues stk w =
     andThen (sugaredTraceInfo s PanicLevel msg False [] stk w)
       (SugaredLogger_call (SugaredLogger s) (Printw MPanic msg keysAndValues))"

definition stdSugaredLogger_Fatalw :: "stdSugaredLogger \<Rightarrow> string \<Rightarrow> arg list \<Rightarrow> Frame list \<Rightarrow> world \<Rightarrow> fault + world" where
  "stdSugaredLogger_Fatalw s msg keysAndValues stk w =
     andThen (sugaredTraceInfo s FatalLevel msg False [] stk w)
       (SugaredLogger_call (SugaredLogger s) (Printw MFatal msg keysAndValues))"

definition stdSugaredLogger_Debugln :: "stdSugaredLogger \<Rightarrow> arg list \<Rightarrow> Frame list \<Rightarrow> world \<Rightarrow> fault + world" where
  "stdSugaredLogger_Debugln s args stk w =
     andThen (sugaredTraceInfo s DebugLevel [] True args stk w)
       (SugaredLogger_call (SugaredLogger s) (Println MDebug args))"

definition stdSugaredLogger_Infoln :: "stdSugaredLogger \<Rightarrow> arg list \<Rightarrow> Frame list \<Rightarrow> world \<Rightarrow> fault + world" where
  "stdSugaredLogger_Infoln s args stk w =
     andThen (sugaredTraceInfo s InfoLevel [] True args stk w)
       (SugaredLogger_call (SugaredLogger s) (Println MInfo args))"

definition stdSugaredLogger_Warnln :: "stdSugaredLogger \<Rightarrow> arg list \<Rightarrow> Frame list \<Rightarrow> world \<Rightarrow> fault + world" where
  "stdSugaredLogger_Warnln s args stk w =
     andThen (sugaredTraceInfo s WarnLevel [] True args stk w)
       (SugaredLogger_call (SugaredLogger s) (Println MWarn args))"

definition stdSugaredLogger_Errorln :: "stdSugaredLogger \<Rightarrow> arg list \<Rightarrow> Frame list \<Rightarrow> world \<Rightarrow> fault + world" where
  "stdSugaredLogger_Errorln s args stk w =
     andThen (sugaredTraceInfo s ErrorLevel [] True args stk w)
       (SugaredLogger_call (SugaredLogger s) (Println MError args))"

definition stdSugaredLogger_DPanicln :: "stdSugaredLogger \<Rightarrow> arg list \<Rightarrow> Frame list \<Rightarrow> world \<Rightarrow> fault + world" where
  "stdSugaredLogger_DPanicln s args stk w =
     andThen (sugaredTraceInfo s DPanicLevel [] True args stk w)
       (SugaredLogger_call (SugaredLogger s) (Println MDPanic args))"

definition stdSugaredLogger_Panicln :: "stdSugaredLogger \<Rightarrow> arg list \<Rightarrow> Frame list \<Rightarrow> world \<Rightarrow> fault + world" where
  "stdSugaredLogger_Panicln s args stk w =
     andThen (sugaredTraceInfo s PanicLevel [] True args stk w)
       (SugaredLogger_call (SugaredLogger s) (Println MPanic args))"

definition stdSugaredLogger_Fatalln :: "stdSugaredLogger \<Rightarrow> arg list \<Rightarrow> Frame list \<Rightarrow> world \<Rightarrow> fault + world" where
  "stdSugaredLogger_Fatalln s args stk w =
     andThen (sugaredTraceInfo s FatalLevel [] True args stk w)
       (SugaredLogger_call (SugaredLogger s) (Println MFatal args))"

text \<open>The interface value \<^verbatim>\<open>izap.StdSugaredLogger\<close> that \<^verbatim>\<open>SugarWithContext\<close> returns.\<close>

datatype izap_StdSugaredLogger = ZapSugaredLogger zapLogger | StdSugaredLoggerPtr stdSugaredLogger

text \<open>\<^verbatim>\<open>SugarWithContext\<close> (trace.go, lines 386-420).\<close>

definition SugarWithContext :: "Context \<Rightarrow> zapLogger \<Rightarrow> Option list \<Rightarrow> izap_StdSugaredLogger" where
  "SugarWithContext c zsLogger opts =
     (if c = NilCtx then ZapSugaredLogger zsLogger
      else
        let spanContext = SpanContextFromContext c
        in if \<not> IsValid spanContext then ZapSugaredLogger zsLogger
           else
             let cfg = applyConfig opts;
                 fields' = [];
                 fields' =
                   (if LogTraceId cfg then
                      fields' @ [zap_String defaultTraceIdKey (hexString (traceID spanContext))]
                    else fields');
                 fields' =
                   (if LogSpanId cfg then
                      fields' @ [zap_String defaultSpanIdKey (hexString (spanID spanContext))]
                    else fields');
                 fields' =
                   (if LogSampled cfg then
                      fields' @ [zap_String defaultSampledKey (hexString [traceFlags spanContext])]
                    else fields')
             in StdSugaredLoggerPtr
                  \<lparr>LogLevel = LogLevel cfg,
                   ErrorStatusLevel = ErrorStatusLevel cfg,
                   CallerDepth = CallerDepth cfg,
                   CallerSkip = CallerSkip cfg,
                   SugaredLogger = zap_WithOptions zsLogger [zap_Fields fields', zap_AddCallerSkip 1],
                   sctx = c\<rparr>)"

subsection \<open>Calls as data\<close>

text \<open>
  A call of either API as a value, so that a statement can range over every method: the
  level a method logs at, and the method of the decorator that a call value names.
\<close>

definition methodLevel :: "levelName \<Rightarrow> Level" where
  "methodLevel m =
     (case m of
        MDebug \<Rightarrow> DebugLevel | MInfo \<Rightarrow> InfoLevel | MWarn \<Rightarrow> WarnLevel
      | MError \<Rightarrow> ErrorLevel | MDPanic \<Rightarrow> DPanicLevel | MPanic \<Rightarrow> PanicLevel
      | MFatal \<Rightarrow> FatalLevel)"

fun severity :: "StdCall \<Rightarrow> Level" where
  "severity (Log lvl msg fields') = lvl"
| "severity (Leveled m msg fields') = methodLevel m"

fun message :: "StdCall \<Rightarrow> string" where
  "message (Log lvl msg fields') = msg"
| "message (Leveled m msg fields') = msg"

fun stdLogger_do :: "stdLogger \<Rightarrow> StdCall \<Rightarrow> Frame list \<Rightarrow> world \<Rightarrow> world" where
  "stdLogger_do l (Log lvl msg fields') stk w = stdLogger_Log l lvl msg fields' stk w"
| "stdLogger_do l (Leveled MDebug msg fields') stk w = stdLogger_Debug l msg fields' stk w"
| "stdLogger_do l (Leveled MInfo msg fields') stk w = stdLogger_Info l msg fields' stk w"
| "stdLogger_do l (Leveled MWarn msg fields') stk w = stdLogger_Warn l msg fields' stk w"
| "stdLogger_do l (Leveled MError msg fields') stk w = stdLogger_Error l msg fields' stk w"
| "stdLogger_do l (Leveled MDPanic msg fields') stk w = stdLogger_DPanic l msg fields' stk w"
| "stdLogger_do l (Leveled MPanic msg fields') stk w = stdLogger_Panic l msg fields' stk w"
| "stdLogger_do l (Leveled MFatal msg fields') stk w = stdLogger_Fatal l msg fields' stk w"

fun sugarSeverity :: "SugarCall \<Rightarrow> Level" where
  "sugarSeverity (Print m args) = methodLevel m"
| "sugarSeverity (Printf m template args) = methodLevel m"
| "sugarSeverity (Printw m msg keysAndValues) = methodLevel m"
| "sugarSeverity (Println m args) = methodLevel m"

fun stdSugaredLogger_do ::
  "stdSugaredLogger \<Rightarrow> SugarCall \<Rightarrow> Frame list \<Rightarrow> world \<Rightarrow> fault + world" where
  "stdSugaredLogger_do s (Print MDebug args) stk w = stdSugaredLogger_Debug s args stk w"
| "stdSugaredLogger_do s (Print MInfo args) stk w = stdSugaredLogger_Info s args stk w"
| "stdSugaredLogger_do s (Print MWarn args) stk w = stdSugaredLogger_Warn s args stk w"
| "stdSugaredLogger_do s (Print MError args) stk w = stdSugaredLogger_Error s args stk w"
| "stdSugaredLogger_do s (Print MDPanic args) stk w = stdSugaredLogger_DPanic s args stk w"
| "stdSugaredLogger_do s (Print MPanic args) stk w = stdSugaredLogger_Panic s args stk w"
| "stdSugaredLogger_do s (Print MFatal args) stk w = stdSugaredLogger_Fatal s args stk w"
| "stdSugaredLogger_do s (Printf MDebug template args) stk w = stdSugaredLogger_Debugf s template args stk w"
| "stdSugaredLogger_do s (Printf MInfo template args) stk w = stdSugaredLogger_Infof s template args stk w"
| "stdSugaredLogger_do s (Printf MWarn template args) stk w = stdSugaredLogger_Warnf s template args stk w"
| "stdSugaredLogger_do s (Printf MError template args) stk w = stdSugaredLogger_Errorf s template args stk w"
| "stdSugaredLogger_do s (Printf MDPanic template args) stk w = stdSugaredLogger_DPanicf s template args stk w"
| "stdSugaredLogger_do s (Printf MPanic template args) stk w = stdSugaredLogger_Panicf s template args stk w"
| "stdSugaredLogger_do s (Printf MFatal template args) stk w = stdSugaredLogger_Fatalf s template args stk w"
| "stdSugaredLogger_do s (Printw MDebug msg keysAndValues) stk w = stdSugaredLogger_Debugw s msg keysAndValues stk w"
| "stdSugaredLogger_do s (Printw MInfo msg keysAndValues) stk w = stdSugaredLogger_Infow s msg keysAndValues stk w"
| "stdSugaredLogger_do s (Printw MWarn msg keysAndValues) stk w = stdSugaredLogger_Warnw s msg keysAndValues stk w"
| "stdSugaredLogger_do s (Printw MError msg keysAndValues) stk w = stdSugaredLogger_Errorw s msg keysAndValues stk w"
| "stdSugaredLogger_do s (Printw MDPanic msg keysAndValues) stk w = stdSugaredLogger_DPanicw s msg keysAndValues stk w"
| "stdSugaredLogger_do s (Printw MPanic msg keysAndValues) stk w = stdSugaredLogger_Panicw s msg keysAndValues stk w"
| "stdSugaredLogger_do s (Printw MFatal msg keysAndValues) stk w = stdSugaredLogger_Fatalw s msg keysAndValues stk w"
| "stdSugaredLogger_do s (Println MDebug args) stk w = stdSugaredLogger_Debugln s args stk w"
| "stdSugaredLogger_do s (Println MInfo args) stk w = stdSugaredLogger_Infoln s args stk w"
| "stdSugaredLogger_do s (Println MWarn args) stk w = stdSugaredLogger_Warnln s args stk w"
| "stdSugaredLogger_do s (Println MError args) stk w = stdSugaredLogger_Errorln s args stk w"
| "stdSugaredLogger_do s (Println MDPanic args) stk w = stdSugaredLogger_DPanicln s args stk w"
| "stdSugaredLogger_do s (Println MPanic args) stk w = stdSugaredLogger_Panicln s args stk w"
| "stdSugaredLogger_do s (Println MFatal args) stk w = stdSugaredLogger_Fatalln s args stk w"


subsection \<open>Vocabulary of the specification\<close>

text \<open>
  The specification's words for two strings, to compare the code with: a list of strings
  joined with single spaces, and the line \<^verbatim>\<open><function> <file>:<line>\n\<close> of one
  frame of the stack text.
\<close>

fun spaceJoined :: "string list \<Rightarrow> string" where
  "spaceJoined [] = []"
| "spaceJoined [x] = x"
| "spaceJoined (x # y # ys) = x @ '' '' @ spaceJoined (y # ys)"

definition frameLine :: "Frame \<Rightarrow> string" where
  "frameLine f = Function f @ '' '' @ File f @ '':'' @ Itoa (Line f) @ [CHR 0x0A]"

section \<open>Properties\<close>

declare digits.simps [simp del]
declare callerLoop.simps [simp del]

lemmas Level_defs =
  DebugLevel_def InfoLevel_def WarnLevel_def ErrorLevel_def
  DPanicLevel_def PanicLevel_def FatalLevel_def

lemmas key_defs =
  logSeverityKey_def logMessageKey_def CodeFunctionKey_def CodeFilepathKey_def
  CodeLineNumberKey_def ExceptionStacktraceKey_def

lemmas stdLogger_method_defs =
  stdLogger_Log_def stdLogger_Debug_def stdLogger_Info_def stdLogger_Warn_def
  stdLogger_Error_def stdLogger_DPanic_def stdLogger_Panic_def stdLogger_Fatal_def

lemmas sugared_method_defs =
  stdSugaredLogger_Debug_def stdSugaredLogger_Info_def stdSugaredLogger_Warn_def
  stdSugaredLogger_Error_def stdSugaredLogger_DPanic_def stdSugaredLogger_Panic_def
  stdSugaredLogger_Fatal_def
  stdSugaredLogger_Debugf_def stdSugaredLogger_Infof_def stdSugaredLogger_Warnf_def
  stdSugaredLogger_Errorf_def stdSugaredLogger_DPanicf_def stdSugaredLogger_Panicf_def
  stdSugaredLogger_Fatalf_def
  stdSugaredLogger_Debugw_def stdSugaredLogger_Infow_def stdSugaredLogger_Warnw_def
  stdSugaredLogger_Errorw_def stdSugaredLogger_DPanicw_def stdSugaredLogger_Panicw_def
  stdSugaredLogger_Fatalw_def
  stdSugaredLogger_Debugln_def stdSugaredLogger_Infoln_def stdSugaredLogger_Warnln_def
  stdSugaredLogger_Errorln_def stdSugaredLogger_DPanicln_def stdSugaredLogger_Panicln_def
  stdSugaredLogger_Fatalln_def

subsection \<open>The structured decorator\<close>

lemma traceInfo_effect:
  "traceInfo l lvl msg stk w =
     w\<lparr>spanOps := spanOps w
        @ (if span_IsRecording (ctx l) w \<and> LogLevel l \<le>s lvl
           then [AddEvent ''log''
                   (recordCaller [(logSeverityKey, StringValue (Level_String lvl)),
                                  (logMessageKey, StringValue msg)]
                      (CallerDepth l) (uint (CallerSkip l + 3)) stk)]
           else [])
        @ (if span_IsRecording (ctx l) w \<and> ErrorStatusLevel l \<le>s lvl
           then [SetStatus codes_Error msg] else [])\<rparr>"
  by (simp add: traceInfo_def span_AddEvent_def span_SetStatus_def Let_def)

lemma stdLogger_do_effect:
  "stdLogger_do l c stk w =
     w\<lparr>spanOps := spanOps w
        @ (if span_IsRecording (ctx l) w \<and> LogLevel l \<le>s severity c
           then [AddEvent ''log''
                   (recordCaller [(logSeverityKey, StringValue (Level_String (severity c))),
                                  (logMessageKey, StringValue (message c))]
                      (CallerDepth l) (uint (CallerSkip l + 3)) stk)]
           else [])
        @ (if span_IsRecording (ctx l) w \<and> ErrorStatusLevel l \<le>s severity c
           then [SetStatus codes_Error (message c)] else []),
       sinkCalls := sinkCalls w @ [StdEntry (Logger l) c]\<rparr>"
proof (cases c)
  case (Log lvl msg fs)
  then show ?thesis
    by (simp add: stdLogger_Log_def traceInfo_effect Logger_call_def)
next
  case (Leveled m msg fs)
  then show ?thesis
    by (cases m)
      (simp_all add: stdLogger_method_defs traceInfo_effect Logger_call_def methodLevel_def)
qed

text \<open>
  Claim C1. For every structured log call \<open>c\<close> (\<^verbatim>\<open>Log\<close> at any level, or one of the
  seven levelled methods) on a decorator \<open>l\<close>, in every state of the span: the calls the
  decorator makes on the span are one \<^verbatim>\<open>AddEvent("log", ...)\<close> exactly when the span is
  recording and the severity is at least \<open>LogLevel l\<close>, followed by one
  \<^verbatim>\<open>SetStatus(codes.Error, msg)\<close> exactly when the span is recording and the severity is
  at least \<open>ErrorStatusLevel l\<close>; and in every case the wrapped logger receives the same
  call, with the same severity, message and fields.
\<close>

theorem structured_call_mirrors_and_forwards:
  "spanOps (stdLogger_do l c stk w) =
     spanOps w
       @ (if span_IsRecording (ctx l) w \<and> LogLevel l \<le>s severity c
          then [AddEvent ''log''
                  (recordCaller [(logSeverityKey, StringValue (Level_String (severity c))),
                                 (logMessageKey, StringValue (message c))]
                     (CallerDepth l) (uint (CallerSkip l + 3)) stk)]
          else [])
       @ (if span_IsRecording (ctx l) w \<and> ErrorStatusLevel l \<le>s severity c
          then [SetStatus codes_Error (message c)] else [])
   \<and> sinkCalls (stdLogger_do l c stk w) = sinkCalls w @ [StdEntry (Logger l) c]
   \<and> recording (stdLogger_do l c stk w) = recording w"
  by (simp add: stdLogger_do_effect)

text \<open>
  The end-to-end scenario of the specification, as an instance: with the mirror threshold
  at Warn and the error-status threshold at Error (caller recording switched off), on a
  recording span, \<^verbatim>\<open>Warn("disk low")\<close> adds an event and sets no status,
  \<^verbatim>\<open>Error("disk full")\<close> adds an event and sets the status, and \<^verbatim>\<open>Debug("tick")\<close>
  touches the span not at all; the wrapped logger receives all three.
\<close>

theorem structured_call_scenario:
  "spanOps (stdLogger_do
      \<lparr>LogLevel = WarnLevel, ErrorStatusLevel = ErrorLevel, CallerDepth = - 1, CallerSkip = 0,
       Logger = \<lparr>zl_name = ''app'', zl_fields = [], zl_callerSkip = 0\<rparr>, ctx = SpanCtx \<lparr>traceID = [0, 0, 0, 0, 0, 0, 0, 0, 0, 0, 0, 0, 0, 0, 1, 171], spanID = [0, 0, 0, 0, 0, 0, 0, 7], traceFlags = 1\<rparr>\<rparr>
      (Leveled MWarn ''disk low'' []) [] \<lparr>recording = True, spanOps = [], sinkCalls = []\<rparr>)
     = [AddEvent ''log'' [(''log.severity'', StringValue ''warn''),
                          (''log.message'', StringValue ''disk low'')]]
   \<and> spanOps (stdLogger_do
      \<lparr>LogLevel = WarnLevel, ErrorStatusLevel = ErrorLevel, CallerDepth = - 1, CallerSkip = 0,
       Logger = \<lparr>zl_name = ''app'', zl_fields = [], zl_callerSkip = 0\<rparr>, ctx = SpanCtx \<lparr>traceID = [0, 0, 0, 0, 0, 0, 0, 0, 0, 0, 0, 0, 0, 0, 1, 171], spanID = [0, 0, 0, 0, 0, 0, 0, 7], traceFlags = 1\<rparr>\<rparr>
      (Leveled MError ''disk full'' []) [] \<lparr>recording = True, spanOps = [], sinkCalls = []\<rparr>)
     = [AddEvent ''log'' [(''log.severity'', StringValue ''error''),
                          (''log.message'', StringValue ''disk full'')],
        SetStatus codes_Error ''disk full'']
   \<and> stdLogger_do
      \<lparr>LogLevel = WarnLevel, ErrorStatusLevel = ErrorLevel, CallerDepth = - 1, CallerSkip = 0,
       Logger = \<lparr>zl_name = ''app'', zl_fields = [], zl_callerSkip = 0\<rparr>, ctx = SpanCtx \<lparr>traceID = [0, 0, 0, 0, 0, 0, 0, 0, 0, 0, 0, 0, 0, 0, 1, 171], spanID = [0, 0, 0, 0, 0, 0, 0, 7], traceFlags = 1\<rparr>\<rparr>
      (Leveled MDebug ''tick'' []) [] \<lparr>recording = True, spanOps = [], sinkCalls = []\<rparr>
     = \<lparr>recording = True, spanOps = [],
        sinkCalls = [StdEntry \<lparr>zl_name = ''app'', zl_fields = [], zl_callerSkip = 0\<rparr> (Leveled MDebug ''tick'' [])]\<rparr>"
  using
    structured_call_mirrors_and_forwards
      [of "\<lparr>LogLevel = WarnLevel, ErrorStatusLevel = ErrorLevel, CallerDepth = - 1,
            CallerSkip = 0, Logger = \<lparr>zl_name = ''app'', zl_fields = [], zl_callerSkip = 0\<rparr>, ctx = SpanCtx \<lparr>traceID = [0, 0, 0, 0, 0, 0, 0, 0, 0, 0, 0, 0, 0, 0, 1, 171], spanID = [0, 0, 0, 0, 0, 0, 0, 7], traceFlags = 1\<rparr>\<rparr>"
          "Leveled MWarn ''disk low'' []" "[]" "\<lparr>recording = True, spanOps = [], sinkCalls = []\<rparr>"]
    structured_call_mirrors_and_forwards
      [of "\<lparr>LogLevel = WarnLevel, ErrorStatusLevel = ErrorLevel, CallerDepth = - 1,
            CallerSkip = 0, Logger = \<lparr>zl_name = ''app'', zl_fields = [], zl_callerSkip = 0\<rparr>, ctx = SpanCtx \<lparr>traceID = [0, 0, 0, 0, 0, 0, 0, 0, 0, 0, 0, 0, 0, 0, 1, 171], spanID = [0, 0, 0, 0, 0, 0, 0, 7], traceFlags = 1\<rparr>\<rparr>"
          "Leveled MError ''disk full'' []" "[]" "\<lparr>recording = True, spanOps = [], sinkCalls = []\<rparr>"]
    structured_call_mirrors_and_forwards
      [of "\<lparr>LogLevel = WarnLevel, ErrorStatusLevel = ErrorLevel, CallerDepth = - 1,
            CallerSkip = 0, Logger = \<lparr>zl_name = ''app'', zl_fields = [], zl_callerSkip = 0\<rparr>, ctx = SpanCtx \<lparr>traceID = [0, 0, 0, 0, 0, 0, 0, 0, 0, 0, 0, 0, 0, 0, 1, 171], spanID = [0, 0, 0, 0, 0, 0, 0, 7], traceFlags = 1\<rparr>\<rparr>"
          "Leveled MDebug ''tick'' []" "[]" "\<lparr>recording = True, spanOps = [], sinkCalls = []\<rparr>"]
  by (simp add: span_IsRecording_def methodLevel_def Level_defs Level_String_def key_defs
      recordCaller_def word_sle_eq)

subsection \<open>The sugared decorator\<close>

lemma sugaredTraceInfo_below_thresholds:
  "lvl <s LogLevel s \<Longrightarrow> lvl <s ErrorStatusLevel s \<Longrightarrow>
   sugaredTraceInfo s lvl msg ln args stk w = Inr w"
  by (simp add: sugaredTraceInfo_def)

lemma sugaredTraceInfo_no_args:
  "sugaredTraceInfo s lvl msg False [] stk w =
     Inr (w\<lparr>spanOps := spanOps w
        @ (if span_IsRecording (sctx s) w \<and> LogLevel s \<le>s lvl
           then [AddEvent ''log''
                  (recordCaller [(logSeverityKey, StringValue (Level_String lvl)),
                                 (logMessageKey, StringValue msg)]
                     (CallerDepth s) (uint (3 + CallerSkip s)) stk)]
           else [])
        @ (if span_IsRecording (sctx s) w \<and> ErrorStatusLevel s \<le>s lvl
           then [SetStatus codes_Error msg] else [])\<rparr>)"
  by (auto simp add: sugaredTraceInfo_def getMessage_def span_AddEvent_def span_SetStatus_def
      Let_def signed.not_le [symmetric])

lemma stdSugaredLogger_do_below_thresholds:
  assumes "sugarSeverity c <s LogLevel s" and "sugarSeverity c <s ErrorStatusLevel s"
  shows "stdSugaredLogger_do s c stk w =
           Inr (w\<lparr>sinkCalls := sinkCalls w @ [SugarEntry (SugaredLogger s) c]\<rparr>)"
proof (cases c)
  case (Print m args)
  with assms show ?thesis
    by (cases m)
      (simp_all add: sugared_method_defs sugaredTraceInfo_below_thresholds methodLevel_def
        andThen_def SugaredLogger_call_def)
next
  case (Printf m template args)
  with assms show ?thesis
    by (cases m)
      (simp_all add: sugared_method_defs sugaredTraceInfo_below_thresholds methodLevel_def
        andThen_def SugaredLogger_call_def)
next
  case (Printw m msg kvs)
  with assms show ?thesis
    by (cases m)
      (simp_all add: sugared_method_defs sugaredTraceInfo_below_thresholds methodLevel_def
        andThen_def SugaredLogger_call_def)
next
  case (Println m args)
  with assms show ?thesis
    by (cases m)
      (simp_all add: sugared_method_defs sugaredTraceInfo_below_thresholds methodLevel_def
        andThen_def SugaredLogger_call_def)
qed

text \<open>
  Claim C4. For every sugared call \<open>c\<close> on a recording span whose severity is below both
  \<open>LogLevel s\<close> and \<open>ErrorStatusLevel s\<close>: \<^verbatim>\<open>sugaredTraceInfo\<close> returns the state as
  it found it, whatever the template, the line flag and the arguments are (also where
  resolving the message would not give a string), so no message is built, no caller is
  recorded and the span is not touched; and the call as a whole does nothing but forward
  \<open>c\<close>, with its original arguments, to the wrapped logger.
\<close>

theorem sugared_call_below_thresholds_only_forwards:
  assumes "span_IsRecording (sctx s) w"
    and "sugarSeverity c <s LogLevel s"
    and "sugarSeverity c <s ErrorStatusLevel s"
  shows "sugaredTraceInfo s (sugarSeverity c) msg ln args stk w = Inr w
       \<and> stdSugaredLogger_do s c stk w =
           Inr (w\<lparr>sinkCalls := sinkCalls w @ [SugarEntry (SugaredLogger s) c]\<rparr>)"
  using assms
  by (simp add: sugaredTraceInfo_below_thresholds stdSugaredLogger_do_below_thresholds)

text \<open>
  An instance: \<^verbatim>\<open>Debugf("%x", 255)\<close> on a decorator with the default thresholds and a
  recording span. The template is one for which \<open>getMessage\<close> gives no string here, and
  still the call returns, with the one call on the wrapped logger.
\<close>

theorem sugared_call_below_thresholds_instance:
  "span_IsRecording (sctx \<lparr>LogLevel = ErrorLevel, ErrorStatusLevel = ErrorLevel, CallerDepth = 8, CallerSkip = 0, SugaredLogger = \<lparr>zl_name = ''app'', zl_fields = [], zl_callerSkip = 0\<rparr>, sctx = SpanCtx \<lparr>traceID = [0, 0, 0, 0, 0, 0, 0, 0, 0, 0, 0, 0, 0, 0, 1, 171], spanID = [0, 0, 0, 0, 0, 0, 0, 7], traceFlags = 1\<rparr>\<rparr>) \<lparr>recording = True, spanOps = [], sinkCalls = []\<rparr>
   \<and> sugarSeverity (Printf MDebug ''%x'' [AInt 255]) <s LogLevel \<lparr>LogLevel = ErrorLevel, ErrorStatusLevel = ErrorLevel, CallerDepth = 8, CallerSkip = 0, SugaredLogger = \<lparr>zl_name = ''app'', zl_fields = [], zl_callerSkip = 0\<rparr>, sctx = SpanCtx \<lparr>traceID = [0, 0, 0, 0, 0, 0, 0, 0, 0, 0, 0, 0, 0, 0, 1, 171], spanID = [0, 0, 0, 0, 0, 0, 0, 7], traceFlags = 1\<rparr>\<rparr>
   \<and> sugarSeverity (Printf MDebug ''%x'' [AInt 255]) <s ErrorStatusLevel \<lparr>LogLevel = ErrorLevel, ErrorStatusLevel = ErrorLevel, CallerDepth = 8, CallerSkip = 0, SugaredLogger = \<lparr>zl_name = ''app'', zl_fields = [], zl_callerSkip = 0\<rparr>, sctx = SpanCtx \<lparr>traceID = [0, 0, 0, 0, 0, 0, 0, 0, 0, 0, 0, 0, 0, 0, 1, 171], spanID = [0, 0, 0, 0, 0, 0, 0, 7], traceFlags = 1\<rparr>\<rparr>
   \<and> getMessage ''%x'' [AInt 255] = Inl OutsideFmtFragment
   \<and> sugaredTraceInfo \<lparr>LogLevel = ErrorLevel, ErrorStatusLevel = ErrorLevel, CallerDepth = 8, CallerSkip = 0, SugaredLogger = \<lparr>zl_name = ''app'', zl_fields = [], zl_callerSkip = 0\<rparr>, sctx = SpanCtx \<lparr>traceID = [0, 0, 0, 0, 0, 0, 0, 0, 0, 0, 0, 0, 0, 0, 1, 171], spanID = [0, 0, 0, 0, 0, 0, 0, 7], traceFlags = 1\<rparr>\<rparr> DebugLevel ''%x'' False [AInt 255] [] \<lparr>recording = True, spanOps = [], sinkCalls = []\<rparr> = Inr \<lparr>recording = True, spanOps = [], sinkCalls = []\<rparr>
   \<and> stdSugaredLogger_do \<lparr>LogLevel = ErrorLevel, ErrorStatusLevel = ErrorLevel, CallerDepth = 8, CallerSkip = 0, SugaredLogger = \<lparr>zl_name = ''app'', zl_fields = [], zl_callerSkip = 0\<rparr>, sctx = SpanCtx \<lparr>traceID = [0, 0, 0, 0, 0, 0, 0, 0, 0, 0, 0, 0, 0, 0, 1, 171], spanID = [0, 0, 0, 0, 0, 0, 0, 7], traceFlags = 1\<rparr>\<rparr> (Printf MDebug ''%x'' [AInt 255]) [] \<lparr>recording = True, spanOps = [], sinkCalls = []\<rparr> =
       Inr \<lparr>recording = True, spanOps = [],
            sinkCalls = [SugarEntry \<lparr>zl_name = ''app'', zl_fields = [], zl_callerSkip = 0\<rparr> (Printf MDebug ''%x'' [AInt 255])]\<rparr>"
proof -
  have h1: "span_IsRecording (sctx \<lparr>LogLevel = ErrorLevel, ErrorStatusLevel = ErrorLevel, CallerDepth = 8, CallerSkip = 0, SugaredLogger = \<lparr>zl_name = ''app'', zl_fields = [], zl_callerSkip = 0\<rparr>, sctx = SpanCtx \<lparr>traceID = [0, 0, 0, 0, 0, 0, 0, 0, 0, 0, 0, 0, 0, 0, 1, 171], spanID = [0, 0, 0, 0, 0, 0, 0, 7], traceFlags = 1\<rparr>\<rparr>) \<lparr>recording = True, spanOps = [], sinkCalls = []\<rparr>"
    by (simp add: span_IsRecording_def)
  have h2: "sugarSeverity (Printf MDebug ''%x'' [AInt 255]) <s LogLevel \<lparr>LogLevel = ErrorLevel, ErrorStatusLevel = ErrorLevel, CallerDepth = 8, CallerSkip = 0, SugaredLogger = \<lparr>zl_name = ''app'', zl_fields = [], zl_callerSkip = 0\<rparr>, sctx = SpanCtx \<lparr>traceID = [0, 0, 0, 0, 0, 0, 0, 0, 0, 0, 0, 0, 0, 0, 1, 171], spanID = [0, 0, 0, 0, 0, 0, 0, 7], traceFlags = 1\<rparr>\<rparr>"
    by (simp add: methodLevel_def Level_defs word_sless_alt)
  have h3: "sugarSeverity (Printf MDebug ''%x'' [AInt 255]) <s ErrorStatusLevel \<lparr>LogLevel = ErrorLevel, ErrorStatusLevel = ErrorLevel, CallerDepth = 8, CallerSkip = 0, SugaredLogger = \<lparr>zl_name = ''app'', zl_fields = [], zl_callerSkip = 0\<rparr>, sctx = SpanCtx \<lparr>traceID = [0, 0, 0, 0, 0, 0, 0, 0, 0, 0, 0, 0, 0, 0, 1, 171], spanID = [0, 0, 0, 0, 0, 0, 0, 7], traceFlags = 1\<rparr>\<rparr>"
    by (simp add: methodLevel_def Level_defs word_sless_alt)
  have g: "getMessage ''%x'' [AInt 255] = Inl OutsideFmtFragment"
    by (simp add: getMessage_def verbOf_def)
  show ?thesis
    using h1 h2 h3 g
      sugared_call_below_thresholds_only_forwards
        [OF h1 h2 h3, of "''%x''" False "[AInt 255]" "[]"]
    by (simp add: methodLevel_def)
qed

text \<open>
  Claim C8. For every key-value method (\<^verbatim>\<open>Debugw\<close> to \<^verbatim>\<open>Fatalw\<close>, the level
  \<open>m\<close>), in every state of the span and so with a recording span: the message of the
  mirrored event and of the error status is the argument \<open>msg\<close> as it stands, the
  event's attributes are built from the severity, \<open>msg\<close> and the caller alone, and the
  key-value arguments appear only in the call forwarded to the wrapped logger; the calls
  made on the span are the same as with no key-value arguments at all.
\<close>

theorem kv_call_mirrors_literal_message:
  "stdSugaredLogger_do s (Printw m msg keysAndValues) stk w =
     Inr (w\<lparr>spanOps := spanOps w
        @ (if span_IsRecording (sctx s) w \<and> LogLevel s \<le>s methodLevel m
           then [AddEvent ''log''
                  (recordCaller [(logSeverityKey, StringValue (Level_String (methodLevel m))),
                                 (logMessageKey, StringValue msg)]
                     (CallerDepth s) (uint (3 + CallerSkip s)) stk)]
           else [])
        @ (if span_IsRecording (sctx s) w \<and> ErrorStatusLevel s \<le>s methodLevel m
           then [SetStatus codes_Error msg] else []),
        sinkCalls := sinkCalls w @ [SugarEntry (SugaredLogger s) (Printw m msg keysAndValues)]\<rparr>)
   \<and> map_sum id spanOps (stdSugaredLogger_do s (Printw m msg keysAndValues) stk w) =
       map_sum id spanOps (stdSugaredLogger_do s (Printw m msg []) stk w)"
  by (cases m)
    (simp_all add: sugared_method_defs sugaredTraceInfo_no_args methodLevel_def
      andThen_def SugaredLogger_call_def)

text \<open>
  An instance: \<^verbatim>\<open>Errorw("disk %d full", "disk", 3)\<close> on a recording span, caller
  recording switched off. The percent sign of the message is not taken for a directive.
\<close>

theorem kv_call_instance:
  "stdSugaredLogger_do
     \<lparr>LogLevel = ErrorLevel, ErrorStatusLevel = ErrorLevel, CallerDepth = - 1, CallerSkip = 0,
      SugaredLogger = \<lparr>zl_name = ''app'', zl_fields = [], zl_callerSkip = 0\<rparr>, sctx = SpanCtx \<lparr>traceID = [0, 0, 0, 0, 0, 0, 0, 0, 0, 0, 0, 0, 0, 0, 1, 171], spanID = [0, 0, 0, 0, 0, 0, 0, 7], traceFlags = 1\<rparr>\<rparr>
     (Printw MError ''disk %d full'' [AString ''disk'', AInt 3]) [] \<lparr>recording = True, spanOps = [], sinkCalls = []\<rparr> =
   Inr \<lparr>recording = True,
        spanOps = [AddEvent ''log'' [(''log.severity'', StringValue ''error''),
                                     (''log.message'', StringValue ''disk %d full'')],
                   SetStatus codes_Error ''disk %d full''],
        sinkCalls = [SugarEntry \<lparr>zl_name = ''app'', zl_fields = [], zl_callerSkip = 0\<rparr> (Printw MError ''disk %d full'' [AString ''disk'', AInt 3])]\<rparr>"
  using kv_call_mirrors_literal_message
    [of "\<lparr>LogLevel = ErrorLevel, ErrorStatusLevel = ErrorLevel, CallerDepth = - 1,
          CallerSkip = 0, SugaredLogger = \<lparr>zl_name = ''app'', zl_fields = [], zl_callerSkip = 0\<rparr>, sctx = SpanCtx \<lparr>traceID = [0, 0, 0, 0, 0, 0, 0, 0, 0, 0, 0, 0, 0, 0, 1, 171], spanID = [0, 0, 0, 0, 0, 0, 0, 7], traceFlags = 1\<rparr>\<rparr>"
        MError "''disk %d full''" "[AString ''disk'', AInt 3]" "[]" "\<lparr>recording = True, spanOps = [], sinkCalls = []\<rparr>"]
  by (simp add: span_IsRecording_def methodLevel_def Level_defs Level_String_def key_defs
      recordCaller_def word_sle_eq)

subsection \<open>Message resolution\<close>

text \<open>
  Claim C6. \<open>getMessage\<close> with an empty template and the single string argument
  \<^verbatim>\<open>"hello"\<close> gives \<^verbatim>\<open>"hello"\<close> (and so for every single string argument); with an
  empty template and no arguments it gives the empty string; with the template
  \<^verbatim>\<open>"%d-%s"\<close> and the arguments 3 and \<^verbatim>\<open>"x"\<close> it gives \<^verbatim>\<open>"3-x"\<close>.
\<close>

theorem getMessage_examples:
  "getMessage [] [AString ''hello''] = Inr ''hello''
   \<and> getMessage [] [AString str] = Inr str
   \<and> getMessage [] [] = Inr []
   \<and> getMessage ''%d-%s'' [AInt 3, AString ''x''] = Inr ''3-x''"
  by (simp add: getMessage_def verbOf_def printArg_def Itoa_def digits.simps extraArgs_def)

lemma doPrintln_spaceJoined:
  "doPrintln n as =
     (if 0 < n \<and> as \<noteq> [] then '' '' else []) @ spaceJoined (map fmtV as) @ [CHR 0x0A]"
proof (induction as arbitrary: n)
  case Nil
  show ?case by simp
next
  case (Cons a as)
  have "doPrintln (n + 1) as =
          (if as \<noteq> [] then '' '' else []) @ spaceJoined (map fmtV as) @ [CHR 0x0A]"
    using Cons.IH [of "n + 1"] by simp
  then show ?case
    by (cases as) simp_all
qed

text \<open>
  Claim C7. \<open>getMessageln\<close> on the arguments \<^verbatim>\<open>"a"\<close> and \<^verbatim>\<open>"b"\<close> gives
  \<^verbatim>\<open>"a b"\<close>; and for every argument list it returns (the slice expression does not
  panic) the default formats of the arguments joined with single spaces, without the
  newline that \<^verbatim>\<open>Sprintln\<close> appends.
\<close>

theorem getMessageln_space_joined:
  "getMessageln [AString ''a'', AString ''b''] = Inr ''a b''
   \<and> getMessageln fmtArgs = Inr (spaceJoined (map fmtV fmtArgs))"
  by (simp add: getMessageln_def Sprintln_def doPrintln_spaceJoined Let_def fmtV_def)

subsection \<open>The caller recorder\<close>

text \<open>
  Claim C9. For every attribute list, every skip value and every call stack,
  \<open>recordCaller\<close> with a negative \<open>callerDepth\<close> returns the attribute list it was given.
\<close>

theorem negative_depth_leaves_attributes:
  assumes "callerDepth <s 0"
  shows "recordCaller attrs callerDepth skip stk = attrs"
  using assms by (simp add: recordCaller_def signed.not_le [symmetric])

theorem negative_depth_instance:
  "(- 1 :: 8 word) <s 0
   \<and> recordCaller [(''log.message'', StringValue ''tick'')] (- 1) 3
       [\<lparr>Function = ''runtime.Callers'', File = ''extern.go'', Line = 331\<rparr>,
      \<lparr>Function = ''otel.recordCaller'', File = ''trace.go'', Line = 113\<rparr>,
      \<lparr>Function = ''otel.(*stdLogger).traceInfo'', File = ''trace.go'', Line = 93\<rparr>,
      \<lparr>Function = ''otel.(*stdLogger).Error'', File = ''trace.go'', Line = 64\<rparr>,
      \<lparr>Function = ''main.handler'', File = ''main.go'', Line = 42\<rparr>,
      \<lparr>Function = ''main.main'', File = ''main.go'', Line = 17\<rparr>,
      \<lparr>Function = ''runtime.main'', File = ''proc.go'', Line = 250\<rparr>,
      \<lparr>Function = ''runtime.goexit'', File = ''asm_amd64.s'', Line = 1594\<rparr>]
       = [(''log.message'', StringValue ''tick'')]"
proof -
  have h: "(- 1 :: 8 word) <s 0"
    by (simp add: word_sless_alt)
  show ?thesis
    using h
      negative_depth_leaves_attributes
        [OF h, of "[(''log.message'', StringValue ''tick'')]" 3
          "[\<lparr>Function = ''runtime.Callers'', File = ''extern.go'', Line = 331\<rparr>,
      \<lparr>Function = ''otel.recordCaller'', File = ''trace.go'', Line = 113\<rparr>,
      \<lparr>Function = ''otel.(*stdLogger).traceInfo'', File = ''trace.go'', Line = 93\<rparr>,
      \<lparr>Function = ''otel.(*stdLogger).Error'', File = ''trace.go'', Line = 64\<rparr>,
      \<lparr>Function = ''main.handler'', File = ''main.go'', Line = 42\<rparr>,
      \<lparr>Function = ''main.main'', File = ''main.go'', Line = 17\<rparr>,
      \<lparr>Function = ''runtime.main'', File = ''proc.go'', Line = 250\<rparr>,
      \<lparr>Function = ''runtime.goexit'', File = ''asm_amd64.s'', Line = 1594\<rparr>]"]
    by simp
qed

text \<open>
  What the stack walk sees: \<open>runtime.Callers\<close> writes the frames above the skip point as
  far as the slice has room, and the iterator yields exactly the frames written.
\<close>

lemma Callers_written:
  "Callers skip n stk =
     (length (take n (drop (nat skip) stk)),
      map Some (take n (drop (nat skip) stk))
        @ replicate (n - length (take n (drop (nat skip) stk))) None)"
  by (simp add: Callers_def Let_def)

lemma CallersFrames_Some: "CallersFrames (map Some fs) = fs"
  by (induction fs) simp_all

lemma CallersFrames_append: "CallersFrames (ps @ qs) = CallersFrames ps @ CallersFrames qs"
  by (induction ps rule: CallersFrames.induct) simp_all

lemma CallersFrames_None: "CallersFrames (replicate k None) = []"
  by (induction k) simp_all

lemma CallersFrames_written: "CallersFrames (map Some fs @ replicate k None) = fs"
  by (simp add: CallersFrames_append CallersFrames_Some CallersFrames_None)

text \<open>
  The loop leaves at the frame for which \<open>Frames_Next\<close> reports that no further frame
  follows, before it has read that frame: it walks all frames of the iterator but the
  last one.
\<close>

lemma callerLoop_walk:
  "callerLoop stack i cc frames attrs stackStr =
     (let walked = take (cc - i) (butlast frames)
      in (attrs @ (if i = 0 then
                     (case walked of
                        [] \<Rightarrow> []
                      | f # _ \<Rightarrow> [(CodeFunctionKey, StringValue (Function f)),
                                  (CodeFilepathKey, StringValue (File f)),
                                  (CodeLineNumberKey, IntValue (Line f))])
                   else []),
          stackStr @ (if stack then concat (map frameLine walked) else [])))"
proof (induction frames arbitrary: i attrs stackStr)
  case Nil
  show ?case
    by (subst callerLoop.simps) (simp add: Frames_Next_def)
next
  case (Cons f rest)
  show ?case
  proof (cases "i < cc \<and> rest \<noteq> []")
    case False
    then show ?thesis
      by (subst callerLoop.simps) (auto simp add: Frames_Next_def)
  next
    case True
    then obtain k where k: "cc - i = Suc k" "cc - Suc i = k"
      by (cases "cc - i") auto
    from True show ?thesis
      by (subst callerLoop.simps)
        (simp add: Frames_Next_def Cons.IH Let_def k frameLine_def split: list.split)
  qed
qed

text \<open>
  Claim C2 says that \<open>callerDepth = 0\<close> adds one function/file/line triple, the
  immediate caller's. The code does not: with \<open>callerDepth = 0\<close> the slice has one slot,
  the iterator has at most one frame, \<open>Frames_Next\<close> reports for it that no frame
  follows, and the loop leaves before the first-frame branch. For every attribute list,
  skip value and call stack, nothing is added.
\<close>

theorem zero_depth_adds_nothing: "recordCaller attrs 0 skip stk = attrs"
proof -
  define fs where "fs = take (Suc 0) (drop (nat (skip + 1)) stk)"
  have "length fs \<le> 1"
    by (simp add: fs_def)
  then have "butlast fs = []"
    by (cases fs) simp_all
  then have loop: "callerLoop False 0 (length fs) fs attrs [] = (attrs, [])"
    by (simp add: callerLoop_walk)
  have "recordCaller attrs 0 skip stk = fst (callerLoop False 0 (length fs) fs attrs [])"
    by (simp add: recordCaller_def Callers_written CallersFrames_written Let_def
        fs_def split_beta)
  then show ?thesis
    by (simp add: loop)
qed

text \<open>
  Claim C3 says that with \<open>callerDepth = N > 0\<close> the stack text holds the frames that
  were available, up to \<open>N\<close>, one line each. The code holds one frame less: of the frames
  captured (at most \<open>N\<close>, fewer when the stack runs out; the walk ends without a fault
  either way) the last one is never read. The function/file/line triple is that of the
  first captured frame, and is missing when only one frame was captured.
\<close>

theorem positive_depth_walks_all_but_last:
  assumes "0 <s callerDepth"
  shows "recordCaller attrs callerDepth skip stk =
     (let walked = butlast (take (nat (sint callerDepth)) (drop (nat (skip + 1)) stk))
      in attrs
         @ (case walked of
              [] \<Rightarrow> []
            | f # _ \<Rightarrow> [(CodeFunctionKey, StringValue (Function f)),
                        (CodeFilepathKey, StringValue (File f)),
                        (CodeLineNumberKey, IntValue (Line f))])
         @ [(ExceptionStacktraceKey, StringValue (concat (map frameLine walked)))])"
proof -
  define fs where "fs = take (nat (sint callerDepth)) (drop (nat (skip + 1)) stk)"
  from assms have d: "0 \<le>s callerDepth" "callerDepth \<noteq> 0"
    by (auto simp add: signed.less_le)
  have loop: "callerLoop True 0 (length fs) fs attrs [] =
      (attrs @ (case butlast fs of
                  [] \<Rightarrow> []
                | f # _ \<Rightarrow> [(CodeFunctionKey, StringValue (Function f)),
                            (CodeFilepathKey, StringValue (File f)),
                            (CodeLineNumberKey, IntValue (Line f))]),
       concat (map frameLine (butlast fs)))"
    by (simp add: callerLoop_walk Let_def)
  have step: "recordCaller attrs callerDepth skip stk =
          fst (callerLoop True 0 (length fs) fs attrs [])
            @ [(ExceptionStacktraceKey,
                StringValue (snd (callerLoop True 0 (length fs) fs attrs [])))]"
    using d
    by (simp add: recordCaller_def Callers_written CallersFrames_written Let_def
        fs_def split_beta)
  show ?thesis
    unfolding step loop by (simp add: Let_def fs_def)
qed

text \<open>
  An instance: depth 8 (the default), skip 3, and a stack on which four frames lie above
  the skip point. Three of them reach the stack text; \<^verbatim>\<open>runtime.goexit\<close> does not.
\<close>

theorem positive_depth_instance:
  "(0 :: 8 word) <s 8
   \<and> recordCaller [] 8 3
       [\<lparr>Function = ''runtime.Callers'', File = ''extern.go'', Line = 331\<rparr>,
      \<lparr>Function = ''otel.recordCaller'', File = ''trace.go'', Line = 113\<rparr>,
      \<lparr>Function = ''otel.(*stdLogger).traceInfo'', File = ''trace.go'', Line = 93\<rparr>,
      \<lparr>Function = ''otel.(*stdLogger).Error'', File = ''trace.go'', Line = 64\<rparr>,
      \<lparr>Function = ''main.handler'', File = ''main.go'', Line = 42\<rparr>,
      \<lparr>Function = ''main.main'', File = ''main.go'', Line = 17\<rparr>,
      \<lparr>Function = ''runtime.main'', File = ''proc.go'', Line = 250\<rparr>,
      \<lparr>Function = ''runtime.goexit'', File = ''asm_amd64.s'', Line = 1594\<rparr>]
     = [(''code.function'', StringValue ''main.handler''),
        (''code.filepath'', StringValue ''main.go''),
        (''code.lineno'', IntValue 42),
        (''exception.stacktrace'',
           StringValue (''main.handler main.go:42'' @ [CHR 0x0A]
             @ ''main.main main.go:17'' @ [CHR 0x0A]
             @ ''runtime.main proc.go:250'' @ [CHR 0x0A]))]"
proof -
  have h: "(0 :: 8 word) <s 8"
    by (simp add: word_sless_alt)
  show ?thesis
    using h
      positive_depth_walks_all_but_last
        [OF h, of "[]" 3
          "[\<lparr>Function = ''runtime.Callers'', File = ''extern.go'', Line = 331\<rparr>,
      \<lparr>Function = ''otel.recordCaller'', File = ''trace.go'', Line = 113\<rparr>,
      \<lparr>Function = ''otel.(*stdLogger).traceInfo'', File = ''trace.go'', Line = 93\<rparr>,
      \<lparr>Function = ''otel.(*stdLogger).Error'', File = ''trace.go'', Line = 64\<rparr>,
      \<lparr>Function = ''main.handler'', File = ''main.go'', Line = 42\<rparr>,
      \<lparr>Function = ''main.main'', File = ''main.go'', Line = 17\<rparr>,
      \<lparr>Function = ''runtime.main'', File = ''proc.go'', Line = 250\<rparr>,
      \<lparr>Function = ''runtime.goexit'', File = ''asm_amd64.s'', Line = 1594\<rparr>]"]
    by (simp add: frameLine_def Itoa_def digits.simps key_defs)
qed

subsection \<open>Construction and configuration\<close>

text \<open>
  Claim C5. For every base logger and every option list, \<open>WithContext\<close> and
  \<open>SugarWithContext\<close> called with the nil context, or with a context whose span context
  is not valid, return the base logger itself: no decorator wraps it, and it has no
  field more than before.
\<close>

theorem invalid_context_returns_base:
  assumes "c = NilCtx \<or> \<not> IsValid (SpanContextFromContext c)"
  shows "WithContext c zLogger opts = ZapLogger zLogger
       \<and> SugarWithContext c zsLogger opts = ZapSugaredLogger zsLogger"
  using assms by (auto simp add: WithContext_def SugarWithContext_def Let_def)

text \<open>
  Instances: the nil context, a context without a span, and a context whose span has a
  span id but an all-zero trace id; each with options that ask for every identifier.
\<close>

theorem invalid_context_instances:
  "\<not> IsValid (SpanContextFromContext NoSpanCtx)
   \<and> \<not> IsValid (SpanContextFromContext (SpanCtx \<lparr>traceID = [0, 0, 0, 0, 0, 0, 0, 0, 0, 0, 0, 0, 0, 0, 0, 0], spanID = [0, 0, 0, 0, 0, 0, 0, 7], traceFlags = 1\<rparr>))
   \<and> WithContext NilCtx \<lparr>zl_name = ''app'', zl_fields = [], zl_callerSkip = 0\<rparr> [WithLogSpanId True, WithLogSampled True] = ZapLogger \<lparr>zl_name = ''app'', zl_fields = [], zl_callerSkip = 0\<rparr>
   \<and> SugarWithContext NilCtx \<lparr>zl_name = ''app'', zl_fields = [], zl_callerSkip = 0\<rparr> [WithLogSpanId True, WithLogSampled True] = ZapSugaredLogger \<lparr>zl_name = ''app'', zl_fields = [], zl_callerSkip = 0\<rparr>
   \<and> WithContext NoSpanCtx \<lparr>zl_name = ''app'', zl_fields = [], zl_callerSkip = 0\<rparr> [WithLogSpanId True, WithLogSampled True] = ZapLogger \<lparr>zl_name = ''app'', zl_fields = [], zl_callerSkip = 0\<rparr>
   \<and> SugarWithContext NoSpanCtx \<lparr>zl_name = ''app'', zl_fields = [], zl_callerSkip = 0\<rparr> [WithLogSpanId True, WithLogSampled True] = ZapSugaredLogger \<lparr>zl_name = ''app'', zl_fields = [], zl_callerSkip = 0\<rparr>
   \<and> WithContext (SpanCtx \<lparr>traceID = [0, 0, 0, 0, 0, 0, 0, 0, 0, 0, 0, 0, 0, 0, 0, 0], spanID = [0, 0, 0, 0, 0, 0, 0, 7], traceFlags = 1\<rparr>) \<lparr>zl_name = ''app'', zl_fields = [], zl_callerSkip = 0\<rparr> [WithLogSpanId True, WithLogSampled True] = ZapLogger \<lparr>zl_name = ''app'', zl_fields = [], zl_callerSkip = 0\<rparr>
   \<and> SugarWithContext (SpanCtx \<lparr>traceID = [0, 0, 0, 0, 0, 0, 0, 0, 0, 0, 0, 0, 0, 0, 0, 0], spanID = [0, 0, 0, 0, 0, 0, 0, 7], traceFlags = 1\<rparr>) \<lparr>zl_name = ''app'', zl_fields = [], zl_callerSkip = 0\<rparr> [WithLogSpanId True, WithLogSampled True]
       = ZapSugaredLogger \<lparr>zl_name = ''app'', zl_fields = [], zl_callerSkip = 0\<rparr>"
proof -
  have h1: "NilCtx = NilCtx \<or> \<not> IsValid (SpanContextFromContext NilCtx)"
    by simp
  have n2: "\<not> IsValid (SpanContextFromContext NoSpanCtx)"
    by (simp add: IsValid_def SpanContextFromContext_def emptySpanContext_def list_ex_iff)
  have n3: "\<not> IsValid (SpanContextFromContext (SpanCtx \<lparr>traceID = [0, 0, 0, 0, 0, 0, 0, 0, 0, 0, 0, 0, 0, 0, 0, 0], spanID = [0, 0, 0, 0, 0, 0, 0, 7], traceFlags = 1\<rparr>))"
    by (simp add: IsValid_def SpanContextFromContext_def)
  have h2: "NoSpanCtx = NilCtx \<or> \<not> IsValid (SpanContextFromContext NoSpanCtx)"
    using n2 by simp
  have h3: "SpanCtx \<lparr>traceID = [0, 0, 0, 0, 0, 0, 0, 0, 0, 0, 0, 0, 0, 0, 0, 0], spanID = [0, 0, 0, 0, 0, 0, 0, 7], traceFlags = 1\<rparr> = NilCtx
      \<or> \<not> IsValid (SpanContextFromContext (SpanCtx \<lparr>traceID = [0, 0, 0, 0, 0, 0, 0, 0, 0, 0, 0, 0, 0, 0, 0, 0], spanID = [0, 0, 0, 0, 0, 0, 0, 7], traceFlags = 1\<rparr>))"
    using n3 by simp
  show ?thesis
    using n2 n3
      invalid_context_returns_base [OF h1, of "\<lparr>zl_name = ''app'', zl_fields = [], zl_callerSkip = 0\<rparr>" "[WithLogSpanId True, WithLogSampled True]" "\<lparr>zl_name = ''app'', zl_fields = [], zl_callerSkip = 0\<rparr>"]
      invalid_context_returns_base [OF h2, of "\<lparr>zl_name = ''app'', zl_fields = [], zl_callerSkip = 0\<rparr>" "[WithLogSpanId True, WithLogSampled True]" "\<lparr>zl_name = ''app'', zl_fields = [], zl_callerSkip = 0\<rparr>"]
      invalid_context_returns_base [OF h3, of "\<lparr>zl_name = ''app'', zl_fields = [], zl_callerSkip = 0\<rparr>" "[WithLogSpanId True, WithLogSampled True]" "\<lparr>zl_name = ''app'', zl_fields = [], zl_callerSkip = 0\<rparr>"]
    by simp
qed

text \<open>
  Claim C10. \<open>applyConfig\<close> on the empty option list gives: trace id on, span id off,
  sampled flag off, both thresholds at Error, caller depth 8, caller skip 0. So a
  decorator built with no options on a valid span context adds the one field
  \<^verbatim>\<open>trace_id\<close> to the wrapped logger (and one to its caller skip), and a structured call
  on it reaches the span, with its event and its error status, exactly when the span is
  recording and the severity is at least Error.
\<close>

theorem default_config:
  fixes sc :: SpanContext and zLogger :: zapLogger
  defines "derived \<equiv>
     zLogger\<lparr>zl_fields := zl_fields zLogger @ [(''trace_id'', hexString (traceID sc))],
             zl_callerSkip := zl_callerSkip zLogger + 1\<rparr>"
  defines "D \<equiv>
     \<lparr>LogLevel = ErrorLevel, ErrorStatusLevel = ErrorLevel, CallerDepth = 8, CallerSkip = 0,
      Logger = derived, ctx = SpanCtx sc\<rparr>"
  assumes "IsValid sc"
  shows "applyConfig [] =
       \<lparr>LogLevel = ErrorLevel, ErrorStatusLevel = ErrorLevel, CallerDepth = 8, CallerSkip = 0,
        LogTraceId = True, LogSpanId = False, LogSampled = False\<rparr>
     \<and> WithContext (SpanCtx sc) zLogger [] = StdLoggerPtr D
     \<and> SugarWithContext (SpanCtx sc) zLogger [] =
         StdSugaredLoggerPtr
           \<lparr>LogLevel = ErrorLevel, ErrorStatusLevel = ErrorLevel, CallerDepth = 8,
            CallerSkip = 0, SugaredLogger = derived, sctx = SpanCtx sc\<rparr>
     \<and> spanOps (stdLogger_do D c stk w) =
         spanOps w
           @ (if recording w \<and> ErrorLevel \<le>s severity c
              then [AddEvent ''log''
                      (recordCaller [(logSeverityKey, StringValue (Level_String (severity c))),
                                     (logMessageKey, StringValue (message c))] 8 3 stk),
                    SetStatus codes_Error (message c)]
              else [])"
proof -
  have cfg: "applyConfig [] =
       \<lparr>LogLevel = ErrorLevel, ErrorStatusLevel = ErrorLevel, CallerDepth = 8, CallerSkip = 0,
        LogTraceId = True, LogSpanId = False, LogSampled = False\<rparr>"
    by (simp add: applyConfig_def)
  have opts: "zap_WithOptions zLogger
        [zap_Fields [zap_String defaultTraceIdKey (hexString (traceID sc))],
         zap_AddCallerSkip 1] = derived"
    by (simp add: zap_WithOptions_def applyOption_def zap_String_def defaultTraceIdKey_def
        derived_def)
  have std: "WithContext (SpanCtx sc) zLogger [] = StdLoggerPtr D"
    using \<open>IsValid sc\<close>
    by (simp add: WithContext_def SpanContextFromContext_def cfg opts Let_def D_def)
  have sug: "SugarWithContext (SpanCtx sc) zLogger [] =
         StdSugaredLoggerPtr
           \<lparr>LogLevel = ErrorLevel, ErrorStatusLevel = ErrorLevel, CallerDepth = 8,
            CallerSkip = 0, SugaredLogger = derived, sctx = SpanCtx sc\<rparr>"
    using \<open>IsValid sc\<close>
    by (simp add: SugarWithContext_def SpanContextFromContext_def cfg opts Let_def)
  have ops: "spanOps (stdLogger_do D c stk w) =
         spanOps w
           @ (if recording w \<and> ErrorLevel \<le>s severity c
              then [AddEvent ''log''
                      (recordCaller [(logSeverityKey, StringValue (Level_String (severity c))),
                                     (logMessageKey, StringValue (message c))] 8 3 stk),
                    SetStatus codes_Error (message c)]
              else [])"
    by (simp add: stdLogger_do_effect D_def span_IsRecording_def)
  from cfg std sug ops show ?thesis
    by simp
qed

text \<open>
  An instance: a valid span context, a base logger without fields, and on the decorator
  a \<^verbatim>\<open>Warn\<close>, which leaves the recording span alone, and an \<^verbatim>\<open>Error\<close>.
\<close>

theorem default_config_instance:
  "IsValid \<lparr>traceID = [0, 0, 0, 0, 0, 0, 0, 0, 0, 0, 0, 0, 0, 0, 1, 171], spanID = [0, 0, 0, 0, 0, 0, 0, 7], traceFlags = 1\<rparr>
   \<and> WithContext (SpanCtx \<lparr>traceID = [0, 0, 0, 0, 0, 0, 0, 0, 0, 0, 0, 0, 0, 0, 1, 171], spanID = [0, 0, 0, 0, 0, 0, 0, 7], traceFlags = 1\<rparr>) \<lparr>zl_name = ''app'', zl_fields = [], zl_callerSkip = 0\<rparr> [] =
       StdLoggerPtr
         \<lparr>LogLevel = 2, ErrorStatusLevel = 2, CallerDepth = 8, CallerSkip = 0,
          Logger = \<lparr>zl_name = ''app'',
                    zl_fields = [(''trace_id'', ''000000000000000000000000000001ab'')],
                    zl_callerSkip = 1\<rparr>,
          ctx = SpanCtx \<lparr>traceID = [0, 0, 0, 0, 0, 0, 0, 0, 0, 0, 0, 0, 0, 0, 1, 171], spanID = [0, 0, 0, 0, 0, 0, 0, 7], traceFlags = 1\<rparr>\<rparr>
   \<and> spanOps (stdLogger_do
        \<lparr>LogLevel = 2, ErrorStatusLevel = 2, CallerDepth = 8, CallerSkip = 0,
          Logger = \<lparr>zl_name = ''app'',
                    zl_fields = [(''trace_id'', ''000000000000000000000000000001ab'')],
                    zl_callerSkip = 1\<rparr>,
          ctx = SpanCtx \<lparr>traceID = [0, 0, 0, 0, 0, 0, 0, 0, 0, 0, 0, 0, 0, 0, 1, 171], spanID = [0, 0, 0, 0, 0, 0, 0, 7], traceFlags = 1\<rparr>\<rparr>
        (Leveled MWarn ''disk low'' []) [] \<lparr>recording = True, spanOps = [], sinkCalls = []\<rparr>) = []
   \<and> spanOps (stdLogger_do
        \<lparr>LogLevel = 2, ErrorStatusLevel = 2, CallerDepth = 8, CallerSkip = 0,
          Logger = \<lparr>zl_name = ''app'',
                    zl_fields = [(''trace_id'', ''000000000000000000000000000001ab'')],
                    zl_callerSkip = 1\<rparr>,
          ctx = SpanCtx \<lparr>traceID = [0, 0, 0, 0, 0, 0, 0, 0, 0, 0, 0, 0, 0, 0, 1, 171], spanID = [0, 0, 0, 0, 0, 0, 0, 7], traceFlags = 1\<rparr>\<rparr>
        (Leveled MError ''disk full'' []) [] \<lparr>recording = True, spanOps = [], sinkCalls = []\<rparr>) =
       [AddEvent ''log'' [(''log.severity'', StringValue ''error''),
                          (''log.message'', StringValue ''disk full''),
                          (''exception.stacktrace'', StringValue [])],
        SetStatus codes_Error ''disk full'']"
proof -
  have h: "IsValid \<lparr>traceID = [0, 0, 0, 0, 0, 0, 0, 0, 0, 0, 0, 0, 0, 0, 1, 171], spanID = [0, 0, 0, 0, 0, 0, 0, 7], traceFlags = 1\<rparr>"
    by (simp add: IsValid_def)
  have hex: "hexString (traceID \<lparr>traceID = [0, 0, 0, 0, 0, 0, 0, 0, 0, 0, 0, 0, 0, 0, 1, 171], spanID = [0, 0, 0, 0, 0, 0, 0, 7], traceFlags = 1\<rparr>) = ''000000000000000000000000000001ab''"
    by (simp add: hexString_def hexByte_def)
  have rc: "recordCaller [(''log.severity'', StringValue ''error''),
                          (''log.message'', StringValue ''disk full'')] 8 3 [] =
            [(''log.severity'', StringValue ''error''),
             (''log.message'', StringValue ''disk full''),
             (''exception.stacktrace'', StringValue [])]"
    by (simp add: recordCaller_def Callers_def Let_def callerLoop.simps word_sle_eq key_defs)
  show ?thesis
    using h hex rc
      default_config [OF h, of "\<lparr>zl_name = ''app'', zl_fields = [], zl_callerSkip = 0\<rparr>" "Leveled MWarn ''disk low'' []" "[]" "\<lparr>recording = True, spanOps = [], sinkCalls = []\<rparr>"]
      default_config [OF h, of "\<lparr>zl_name = ''app'', zl_fields = [], zl_callerSkip = 0\<rparr>" "Leveled MError ''disk full'' []" "[]" "\<lparr>recording = True, spanOps = [], sinkCalls = []\<rparr>"]
    by (simp add: methodLevel_def Level_defs Level_String_def key_defs word_sle_eq)
qed

end
